theory Spec2Isabelle
  imports Main "HOL-Library.Sublist"
begin

section \<open>Strings: the string operations of \<^verbatim>\<open>authenticator.py\<close>\<close>

text \<open>
  The program scrapes three things with \<^verbatim>\<open>re.search\<close> and rewrites one URL with
  \<^verbatim>\<open>str.replace\<close>. Each pattern is embedded as a matcher anchored at the start of
  its argument; \<open>re_search\<close> tries the matcher at every position from left to right, as
  \<^verbatim>\<open>re.search\<close> does, and returns the leftmost match.
\<close>

definition ONE_ONE_ONE_ONE :: string where
  "ONE_ONE_ONE_ONE = ''http://1.1.1.1/''"

definition ONE_ONE_ONE_ONE_HTTPS :: string where
  "ONE_ONE_ONE_ONE_HTTPS = ''https://1.1.1.1/''"

definition newline :: char where
  "newline = CHR 0x0A"

definition dquote :: char where
  "dquote = CHR 0x22"

text \<open>A character range \<^verbatim>\<open>lo-hi\<close> of a character class.\<close>

definition in_range :: "char \<Rightarrow> char \<Rightarrow> char \<Rightarrow> bool" where
  "in_range lo hi c = ((of_char lo :: nat) \<le> of_char c \<and> (of_char c :: nat) \<le> of_char hi)"

text \<open>The class \<^verbatim>\<open>[a-z:0-9.]\<close> of the base URL pattern.\<close>

definition url_class :: "char \<Rightarrow> bool" where
  "url_class c = (in_range CHR ''a'' CHR ''z'' c \<or> c = CHR '':'' \<or>
                  in_range CHR ''0'' CHR ''9'' c \<or> c = CHR ''.'')"

text \<open>The class \<^verbatim>\<open>[a-zA-Z0-9]\<close> of the magic pattern.\<close>

definition magic_class :: "char \<Rightarrow> bool" where
  "magic_class c = (in_range CHR ''a'' CHR ''z'' c \<or> in_range CHR ''A'' CHR ''Z'' c \<or>
                    in_range CHR ''0'' CHR ''9'' c)"

text \<open>\<open>strip_prefix p s\<close> is the rest of \<open>s\<close> after the literal \<open>p\<close>, if \<open>s\<close> starts with it.\<close>

fun strip_prefix :: "string \<Rightarrow> string \<Rightarrow> string option" where
  "strip_prefix [] s = Some s"
| "strip_prefix (p # ps) [] = None"
| "strip_prefix (p # ps) (c # cs) = (if p = c then strip_prefix ps cs else None)"

text \<open>\<^verbatim>\<open>re.search\<close>: the match at the leftmost position where the pattern matches.\<close>

fun re_search :: "(string \<Rightarrow> 'a option) \<Rightarrow> string \<Rightarrow> 'a option" where
  "re_search m [] = m []"
| "re_search m (c # cs) = (case m (c # cs) of Some r \<Rightarrow> Some r | None \<Rightarrow> re_search m cs)"

text \<open>
  \<^verbatim>\<open>"https://[a-z:0-9.]*/"\<close>, group 0. The star is greedy and \<^verbatim>\<open>/\<close> is not in the
  class, so the only candidate is the longest run of class characters, which must be
  followed by \<^verbatim>\<open>/\<close>.
\<close>

definition base_url_at :: "string \<Rightarrow> string option" where
  "base_url_at s =
     (case strip_prefix ''https://'' s of
        None \<Rightarrow> None
      | Some r \<Rightarrow>
          (case dropWhile url_class r of
             [] \<Rightarrow> None
           | c # _ \<Rightarrow>
               if c = CHR ''/'' then Some (''https://'' @ takeWhile url_class r @ ''/'')
               else None))"

text \<open>
  \<^verbatim>\<open>'(name="magic" value=")([a-zA-Z0-9]+)(")'\<close>, group 2: a non-empty longest run
  of class characters, followed by the closing quote.
\<close>

definition magic_prefix :: string where
  \<open>magic_prefix = ''name="magic" value="''\<close>

definition magic_at :: "string \<Rightarrow> string option" where
  "magic_at s =
     (case strip_prefix magic_prefix s of
        None \<Rightarrow> None
      | Some r \<Rightarrow>
          (if takeWhile magic_class r = [] then None
           else (case dropWhile magic_class r of
                   [] \<Rightarrow> None
                 | c # _ \<Rightarrow> if c = dquote then Some (takeWhile magic_class r) else None)))"

text \<open>
  \<^verbatim>\<open>r'window.location="(.*)"'\<close>, group 1. The dot matches every character but a
  newline, also the one between \<^verbatim>\<open>window\<close> and \<^verbatim>\<open>location\<close>; the greedy
  \<^verbatim>\<open>(.*)\<close> runs to the last double quote of the line.
\<close>

definition upto_last_quote :: "string \<Rightarrow> string" where
  "upto_last_quote line = rev (tl (dropWhile (\<lambda>c. c \<noteq> dquote) (rev line)))"

definition redirect_at :: "string \<Rightarrow> string option" where
  \<open>redirect_at s =
     (case strip_prefix ''window'' s of
        None \<Rightarrow> None
      | Some [] \<Rightarrow> None
      | Some (c # r) \<Rightarrow>
          (if c = newline then None
           else (case strip_prefix ''location="'' r of
                   None \<Rightarrow> None
                 | Some r' \<Rightarrow>
                     (let line = takeWhile (\<lambda>c. c \<noteq> newline) r' in
                      if dquote \<in> set line then Some (upto_last_quote line) else None))))\<close>

text \<open>
  \<^verbatim>\<open>str.replace(old, new)\<close>: every non-overlapping occurrence, from the left. For an
  empty \<open>old\<close> Python puts \<open>new\<close> before every character and at the end.
\<close>

function py_replace :: "string \<Rightarrow> string \<Rightarrow> string \<Rightarrow> string" where
  "py_replace old new s =
     (if old = [] then new @ concat (map (\<lambda>c. c # new) s)
      else (case s of
              [] \<Rightarrow> []
            | c # cs \<Rightarrow>
                (case strip_prefix old s of
                   Some r \<Rightarrow> new @ py_replace old new r
                 | None \<Rightarrow> c # py_replace old new cs)))"
  by pat_completeness auto
termination
proof (relation "measure (\<lambda>(old, new, s). length s)")
  show "wf (measure (\<lambda>(old, new, s). length s))" by simp
next
  fix old new s :: string and c cs r
  have len: "strip_prefix p t = Some u \<Longrightarrow> length u + length p = length t" for p t u
    by (induction p t rule: strip_prefix.induct) (auto split: if_splits)
  assume "old \<noteq> []" "s = c # cs" "strip_prefix old s = Some r"
  then show "((old, new, r), (old, new, s)) \<in> measure (\<lambda>(old, new, s). length s)"
    using len [of old s r] by (cases old) auto
next
  fix old new s :: string and c cs
  assume "s = c # cs"
  then show "((old, new, cs), (old, new, s)) \<in> measure (\<lambda>(old, new, s). length s)"
    by simp
qed

declare py_replace.simps [simp del]

text \<open>Decimal rendering of a non-negative integer, as an f-string does it.\<close>

fun str_nat :: "nat \<Rightarrow> string" where
  "str_nat n = (if n < 10 then [''0123456789'' ! n]
                else str_nat (n div 10) @ [''0123456789'' ! (n mod 10)])"

declare str_nat.simps [simp del]

section \<open>The collaborators: arguments, console, network, process\<close>

text \<open>
  \<^verbatim>\<open>Parser\<close>: the attributes after \<^verbatim>\<open>__validate_args\<close>, which prompts for a
  missing user name or password and replaces a negative interval by its default; the two
  intervals are therefore natural numbers. The attribute \<^verbatim>\<open>keepalive\<close> is the field
  \<open>keepalive_seconds\<close> here, the name \<open>keepalive\<close> being the method's.
\<close>

record parser =
  username :: string
  password :: string
  verbose :: bool
  retry :: nat
  keepalive_seconds :: nat

record args =
  arg_username :: "string option"
  arg_password :: "string option"
  arg_verbose :: bool
  arg_retry :: int
  arg_keepalive :: int

definition validate_args :: "args \<Rightarrow> string \<Rightarrow> string \<Rightarrow> parser" where
  "validate_args a typed_username typed_password =
     \<lparr> username = (case arg_username a of None \<Rightarrow> typed_username | Some u \<Rightarrow> u),
       password = (case arg_password a of None \<Rightarrow> typed_password | Some p \<Rightarrow> p),
       verbose = arg_verbose a,
       retry = (if arg_retry a < 0 then 60 else nat (arg_retry a)),
       keepalive_seconds = (if arg_keepalive a < 0 then 2200 else nat (arg_keepalive a)) \<rparr>"

text \<open>
  The network is an oracle: the answer to the \<open>n\<close>-th request of the run, which may
  depend on the request. \<^verbatim>\<open>requests\<close> either raises a
  \<^verbatim>\<open>RequestException\<close> or returns a response, of which the program reads the status
  code, the final URL (redirects are followed) and the body text.
\<close>

record response =
  status_code :: int
  url :: string
  text_body :: string

datatype http_method = GET | POST

datatype request = Request http_method string "(string \<times> string) list" "(string \<times> string) list"

datatype net_result = RequestException | Response response

type_synonym network = "nat \<Rightarrow> request \<Rightarrow> net_result"

datatype level = INFO | ERROR | WARNING

datatype event = Sent request | Slept nat | Logged level string

text \<open>
  \<^verbatim>\<open>Authenticator\<close>: its two private attributes and its parser, with the number of
  requests issued so far and the events the process has produced, oldest first.
\<close>

record state =
  parser :: parser
  logged_in :: bool
  logout_url :: string
  clock :: nat
  trace :: "event list"

text \<open>
  How the process can end: \<^verbatim>\<open>exit(code=n)\<close> raises \<^verbatim>\<open>SystemExit\<close>; an
  exception that no handler catches ends the interpreter with status 1.
\<close>

datatype pyerror =
  UnboundLocalError | TypeError | AttributeError | OverflowError | OSError
  | UncaughtRequestException

datatype halt = SystemExit int | Uncaught pyerror

datatype 'a result = Halt halt | Return 'a

fun exit_status :: "halt \<Rightarrow> int" where
  "exit_status (SystemExit n) = n"
| "exit_status (Uncaught e) = 1"

text \<open>\<^verbatim>\<open>Console\<close>: each method logs only when \<^verbatim>\<open>verbose\<close> is set.\<close>

definition console_log :: "state \<Rightarrow> string \<Rightarrow> state" where
  "console_log st message =
     (if verbose (parser st) then st\<lparr>trace := trace st @ [Logged INFO message]\<rparr> else st)"

definition console_error :: "state \<Rightarrow> string \<Rightarrow> state" where
  "console_error st message =
     (if verbose (parser st) then st\<lparr>trace := trace st @ [Logged ERROR message]\<rparr> else st)"

definition console_warn :: "state \<Rightarrow> string \<Rightarrow> state" where
  "console_warn st message =
     (if verbose (parser st) then st\<lparr>trace := trace st @ [Logged WARNING message]\<rparr> else st)"

text \<open>
  \<^verbatim>\<open>time.sleep\<close> does not accept every interval: CPython converts the seconds to a
  signed 64-bit count of nanoseconds and raises \<^verbatim>\<open>OverflowError\<close> when that does not
  fit, and the platform may refuse (\<^verbatim>\<open>OSError\<close>) an interval that fits. The parser
  puts no upper bound on the two intervals. The platform's \<^verbatim>\<open>time.sleep\<close> is
  therefore an oracle as the network is: what the call made after \<open>n\<close> requests does
  with the given seconds, \<open>None\<close> when it sleeps and returns, the exception otherwise.
  Neither call of the program is inside a \<^verbatim>\<open>try\<close>.
\<close>

type_synonym sleeper = "nat \<Rightarrow> nat \<Rightarrow> pyerror option"

definition slept :: "state \<Rightarrow> nat \<Rightarrow> state" where
  "slept st secs = st\<lparr>trace := trace st @ [Slept secs]\<rparr>"

definition time_sleep :: "sleeper \<Rightarrow> state \<Rightarrow> nat \<Rightarrow> unit result \<times> state" where
  "time_sleep slp st secs =
     (case slp (clock st) secs of
        None \<Rightarrow> (Return (), slept st secs)
      | Some e \<Rightarrow> (Halt (Uncaught e), st))"

definition user_agent :: "(string \<times> string) list" where
  "user_agent = [(''User-Agent'', ''Mozilla/5.0'')]"

text \<open>
  Every request goes through \<open>send\<close>: the oracle answers, and the request is counted and
  recorded whether it succeeds or not.
\<close>

definition sent :: "request \<Rightarrow> state \<Rightarrow> state" where
  "sent rq st = st\<lparr>clock := Suc (clock st), trace := trace st @ [Sent rq]\<rparr>"

definition send :: "network \<Rightarrow> request \<Rightarrow> state \<Rightarrow> net_result \<times> state" where
  "send net rq st = (net (clock st) rq, sent rq st)"

definition get_request :: "string \<Rightarrow> request" where
  "get_request u = Request GET u user_agent []"

definition requests_get :: "network \<Rightarrow> string \<Rightarrow> state \<Rightarrow> net_result \<times> state" where
  "requests_get net u st = send net (get_request u) st"

definition post_request :: "string \<Rightarrow> (string \<times> string) list \<Rightarrow> request" where
  "post_request u data = Request POST u user_agent data"

definition requests_post ::
  "network \<Rightarrow> string \<Rightarrow> (string \<times> string) list \<Rightarrow> state \<Rightarrow> net_result \<times> state" where
  "requests_post net u data st = send net (post_request u data) st"

section \<open>The authenticator\<close>

definition init :: "parser \<Rightarrow> state" where
  "init p = \<lparr> parser = p, logged_in = False, logout_url = [], clock = 0, trace = [] \<rparr>"

text \<open>
  \<^verbatim>\<open>__interupt_handler\<close>. When the logout request raises, the bare
  \<^verbatim>\<open>except\<close> logs the error and leaves \<^verbatim>\<open>response\<close> unbound; reading
  \<^verbatim>\<open>response.status_code\<close> then raises \<^verbatim>\<open>UnboundLocalError\<close>, before
  \<^verbatim>\<open>exit(code=0)\<close> is reached.
\<close>

definition interupt_handler :: "network \<Rightarrow> state \<Rightarrow> halt \<times> state" where
  "interupt_handler net st =
     (if logged_in st then
        (case requests_get net (logout_url st) st of
           (RequestException, st1) \<Rightarrow>
             (Uncaught UnboundLocalError,
              console_error st1 (''Cannot open URL: '' @ logout_url st))
         | (Response response, st1) \<Rightarrow>
             (SystemExit 0,
              if status_code response = 200 then console_log st1 ''Successfully logged out''
              else st1))
      else (SystemExit 0, console_log st ''Exiting''))"

text \<open>
  \<^verbatim>\<open>__state_check\<close>: the loop asks for the canary address until a response with
  status 200 arrives; it may never return, which is the value \<open>None\<close>.
\<close>

partial_function (option) state_check_loop :: "network \<Rightarrow> state \<Rightarrow> (response \<times> state) option" where
  "state_check_loop net st =
     (case requests_get net ONE_ONE_ONE_ONE st of
        (RequestException, st1) \<Rightarrow>
          state_check_loop net
            (console_error st1 (''Cannot open URL: '' @ ONE_ONE_ONE_ONE @ ''.  Retrying''))
      | (Response response, st1) \<Rightarrow>
          if status_code response = 200 then Some (response, st1)
          else state_check_loop net st1)"

declare state_check_loop.simps [code]

definition state_check :: "network \<Rightarrow> state \<Rightarrow> ((bool \<times> response) \<times> state) option" where
  "state_check net st =
     (case state_check_loop net (console_log st ''Checking state'') of
        None \<Rightarrow> None
      | Some (response, st1) \<Rightarrow>
          if url response = ONE_ONE_ONE_ONE_HTTPS then Some ((True, response), st1)
          else Some ((False, response), st1))"

text \<open>
  \<^verbatim>\<open>__login\<close>. The dictionary \<^verbatim>\<open>data\<close> of the credential form is
  \<open>form_data\<close>; the second request is outside every \<^verbatim>\<open>try\<close>.
\<close>

definition form_data :: "parser \<Rightarrow> string \<Rightarrow> (string \<times> string) list" where
  "form_data p magic =
     [(''username'', username p), (''password'', password p), (''magic'', magic),
      (''4Tredir'', ''/'')]"

definition login ::
  "network \<Rightarrow> response \<Rightarrow> state \<Rightarrow> (bool \<times> response option) result \<times> state" where
  "login net response st =
     (case re_search base_url_at (url response) of
        None \<Rightarrow>
          (Halt (SystemExit 1),
           console_error st ''Cound not find base URL via regex match. Exiting'')
      | Some u \<Rightarrow>
     (case re_search magic_at (text_body response) of
        None \<Rightarrow>
          (Halt (SystemExit 1),
           console_error st ''Could not find magic value via regex match. Exiting'')
      | Some magic \<Rightarrow>
     (let data = form_data (parser st) magic
      in case requests_post net u data st of
           (RequestException, st1) \<Rightarrow>
             (Return (False, None), console_error st1 (''Cannot open URL: '' @ u))
         | (Response response1, st1) \<Rightarrow>
             if status_code response1 \<noteq> 200 then (Return (False, Some response1), st1)
             else
               (case re_search redirect_at (text_body response1) of
                  None \<Rightarrow>
                    (Halt (SystemExit 1),
                     console_error st1 ''Invalid username/password combination. Exiting'')
                | Some u2 \<Rightarrow>
                    (case requests_get net u2 st1 of
                       (RequestException, st2) \<Rightarrow> (Halt (Uncaught UncaughtRequestException), st2)
                     | (Response response2, st2) \<Rightarrow>
                         if status_code response2 \<noteq> 200
                         then (Return (False, Some response2),
                               console_error st2 ''Failed to fetch keepalive webpage'')
                         else (Return (True, Some response2),
                               (console_log st2 ''Successfully logged in'')
                                 \<lparr>logged_in := True,
                                  logout_url := py_replace ''keepalive'' ''logout'' u2\<rparr>))))))"

text \<open>
  \<^verbatim>\<open>__keepalive\<close>: \<open>None\<close> when the session never ends; the loop returns when
  the session is lost, and the process halts when \<^verbatim>\<open>time.sleep\<close> raises.
\<close>

partial_function (option) keepalive ::
  "sleeper \<Rightarrow> network \<Rightarrow> string \<Rightarrow> state \<Rightarrow> (unit result \<times> state) option" where
  "keepalive slp net u st =
     (case requests_get net u st of
        (RequestException, st1) \<Rightarrow>
          Some (Return (), (console_error st1 (''Cannot open URL: '' @ u))\<lparr>logged_in := False\<rparr>)
      | (Response response, st1) \<Rightarrow>
          if status_code response = 200 \<and> url response = u
          then (case time_sleep slp
                       (console_log st1
                          (''Keeping alive ('' @ str_nat (keepalive_seconds (parser st1)) @
                           '' seconds)''))
                       (keepalive_seconds (parser st1)) of
                  (Halt h, st2) \<Rightarrow> Some (Halt h, st2)
                | (Return x, st2) \<Rightarrow> keepalive slp net u st2)
          else Some (Return (),
                     (console_error st1 ''Something went wrong'')\<lparr>logged_in := False\<rparr>))"

declare keepalive.simps [code]

text \<open>
  \<^verbatim>\<open>run\<close>: the loop has no exit of its own, so it ends only by a halt of the
  process. Subscripting the \<^verbatim>\<open>None\<close> of a failed search raises
  \<^verbatim>\<open>TypeError\<close>, and the request for the portal page is outside every
  \<^verbatim>\<open>try\<close>.
\<close>

partial_function (option) run :: "sleeper \<Rightarrow> network \<Rightarrow> state \<Rightarrow> (halt \<times> state) option" where
  "run slp net st =
     (case state_check net st of
        None \<Rightarrow> None
      | Some ((status, response), st1) \<Rightarrow>
          if status then
            (case time_sleep slp
                    (console_log st1
                       (''Already logged in. Sleeping for '' @ str_nat (retry (parser st1))))
                    (retry (parser st1)) of
               (Halt h, st2) \<Rightarrow> Some (h, st2)
             | (Return x, st2) \<Rightarrow> run slp net st2)
          else
            (case re_search redirect_at (text_body response) of
               None \<Rightarrow> Some (Uncaught TypeError, st1)
             | Some u \<Rightarrow>
                 (case requests_get net u (console_log st1 ''Not logged in'') of
                    (RequestException, st2) \<Rightarrow> Some (Uncaught UncaughtRequestException, st2)
                  | (Response response1, st2) \<Rightarrow>
                      if status_code response1 \<noteq> 200
                      then run slp net
                             (console_error st2 ''Failed to fetch captive portal webpage. Retrying'')
                      else
                        (case login net response1 st2 of
                           (Halt h, st3) \<Rightarrow> Some (h, st3)
                         | (Return (status2, response2), st3) \<Rightarrow>
                             if \<not> status2 then run slp net st3
                             else
                               (case response2 of
                                  None \<Rightarrow> Some (Uncaught AttributeError, st3)
                                | Some r \<Rightarrow>
                                    (case keepalive slp net (url r) st3 of
                                       None \<Rightarrow> None
                                     | Some (Halt h, st4) \<Rightarrow> Some (h, st4)
                                     | Some (Return x, st4) \<Rightarrow> run slp net st4))))))"

declare run.simps [code]

section \<open>Notions of the specification\<close>

text \<open>The request for the canary address.\<close>

definition canary :: request where
  "canary = get_request ONE_ONE_ONE_ONE"

text \<open>The half of the session invariant that the code keeps.\<close>

definition session_inv :: "state \<Rightarrow> bool" where
  "session_inv st = (logged_in st \<longrightarrow> logout_url st \<noteq> [])"

text \<open>
  The first iteration of \<open>run\<close> started in \<open>st0\<close> gets as far as calling
  \<open>login response\<close> in state \<open>st\<close>: the prober reports a captured connection, the
  script redirect is found, and the portal page arrives with status 200.
\<close>

definition calls_login :: "network \<Rightarrow> state \<Rightarrow> response \<Rightarrow> state \<Rightarrow> bool" where
  "calls_login net st0 response st =
     (case state_check net st0 of
        None \<Rightarrow> False
      | Some ((status, response0), st1) \<Rightarrow>
          \<not> status \<and>
          (case re_search redirect_at (text_body response0) of
             None \<Rightarrow> False
           | Some u \<Rightarrow>
               (case requests_get net u (console_log st1 ''Not logged in'') of
                  (RequestException, st2) \<Rightarrow> False
                | (Response response1, st2) \<Rightarrow>
                    status_code response1 = 200 \<and> response = response1 \<and> st = st2)))"

text \<open>The keepalive request sent as request number \<open>n\<close> is answered as a healthy session is.\<close>

definition healthy :: "network \<Rightarrow> string \<Rightarrow> nat \<Rightarrow> bool" where
  "healthy net u n =
     (case net n (get_request u) of
        RequestException \<Rightarrow> False
      | Response response \<Rightarrow> status_code response = 200 \<and> url response = u)"

text \<open>The state in which a session is given up, after the error message \<open>m\<close>.\<close>

definition given_up :: "string \<Rightarrow> string \<Rightarrow> state \<Rightarrow> state" where
  "given_up u m st = (console_error (sent (get_request u) st) m)\<lparr>logged_in := False\<rparr>"

text \<open>The state in which a healthy iteration of the keepalive loop starts the next one.\<close>

definition kept_alive :: "string \<Rightarrow> state \<Rightarrow> state" where
  "kept_alive u st =
     slept
       (console_log (sent (get_request u) st)
          (''Keeping alive ('' @ str_nat (keepalive_seconds (parser st)) @ '' seconds)''))
       (keepalive_seconds (parser st))"

text \<open>
  The state in which a healthy iteration calls \<^verbatim>\<open>time.sleep\<close>, and the sleeper
  accepting the keepalive interval of \<open>st\<close> in the iteration that sends request number
  \<open>n\<close>.
\<close>

definition before_sleep :: "string \<Rightarrow> state \<Rightarrow> state" where
  "before_sleep u st =
     console_log (sent (get_request u) st)
       (''Keeping alive ('' @ str_nat (keepalive_seconds (parser st)) @ '' seconds)'')"

definition sleeps :: "sleeper \<Rightarrow> state \<Rightarrow> nat \<Rightarrow> bool" where
  "sleeps slp st n = (slp (Suc n) (keepalive_seconds (parser st)) = None)"

text \<open>The error message with which the loop gives the session up at request \<open>n\<close>.\<close>

definition loss_message :: "network \<Rightarrow> string \<Rightarrow> nat \<Rightarrow> string" where
  "loss_message net u n =
     (case net n (get_request u) of
        RequestException \<Rightarrow> ''Cannot open URL: '' @ u
      | Response response \<Rightarrow> ''Something went wrong'')"

text \<open>
  The prober called in \<open>st\<close> returns in \<open>st'\<close> with a captured connection whose page has
  no script redirect: the next statement of \<open>run\<close> subscripts \<^verbatim>\<open>None\<close>.
\<close>

definition probe_halts :: "network \<Rightarrow> state \<Rightarrow> state \<Rightarrow> bool" where
  "probe_halts net st st' =
     (case state_check net st of
        None \<Rightarrow> False
      | Some ((status, response), st1) \<Rightarrow>
          \<not> status \<and> re_search redirect_at (text_body response) = None \<and> st' = st1)"

section \<open>Concrete gateways\<close>

text \<open>
  A scripted network answers the \<open>n\<close>-th request with the \<open>n\<close>-th entry of a list and
  raises once the list is used up; like \<^verbatim>\<open>requests\<close>, it raises for the empty URL.
  A steady network gives one answer to everything.
\<close>

definition script :: "net_result list \<Rightarrow> network" where
  "script rs n rq =
     (case rq of Request m u h d \<Rightarrow>
        if u = [] \<or> length rs \<le> n then RequestException else rs ! n)"

definition steady :: "net_result \<Rightarrow> network" where
  "steady a n rq = a"

text \<open>
  \<^verbatim>\<open>time.sleep\<close> of CPython on a platform that accepts at most \<open>lim\<close> seconds:
  more than 9223372036 seconds are more than \<open>2^63 - 1\<close> nanoseconds. \<open>sleep0\<close> accepts
  nine billion seconds.
\<close>

definition sleep_int64 :: "nat \<Rightarrow> sleeper" where
  "sleep_int64 lim n secs =
     (if 9223372036 < secs then Some OverflowError
      else if lim < secs then Some OSError
      else None)"

definition sleep0 :: sleeper where
  "sleep0 = sleep_int64 9000000000"

definition p0 :: parser where
  "p0 = \<lparr> username = ''u'', password = ''p'', verbose = True, retry = 60,
          keepalive_seconds = 2200 \<rparr>"

text \<open>The arguments \<^verbatim>\<open>-k 10000000000\<close>, which the parser accepts.\<close>

definition p_long :: parser where
  "p_long = \<lparr> username = ''u'', password = ''p'', verbose = True, retry = 60,
              keepalive_seconds = 10000000000 \<rparr>"

definition canary_direct :: response where
  "canary_direct = \<lparr> status_code = 200, url = ''https://1.1.1.1/'', text_body = [] \<rparr>"

definition canary_captured :: response where
  \<open>canary_captured =
     \<lparr> status_code = 200, url = ''http://1.1.1.1/'',
       text_body = ''<script>window.location="https://gw:1003/fgtauth?abc";</script>'' \<rparr>\<close>

definition canary_blank :: response where
  "canary_blank = \<lparr> status_code = 200, url = ''http://1.1.1.1/'', text_body = [] \<rparr>"

definition unavailable :: response where
  "unavailable = \<lparr> status_code = 503, url = ''http://1.1.1.1/'', text_body = [] \<rparr>"

definition portal_page :: response where
  \<open>portal_page =
     \<lparr> status_code = 200, url = ''https://gw:1003/fgtauth?abc'',
       text_body = ''<input name="magic" value="abc123">'' \<rparr>\<close>

definition portal_dashed :: response where
  \<open>portal_dashed =
     \<lparr> status_code = 200, url = ''https://gw:1003/fgtauth?abc'',
       text_body = ''<input name="magic" value="a-b">'' \<rparr>\<close>

definition portal_bare :: response where
  "portal_bare =
     \<lparr> status_code = 200, url = ''https://gw:1003/fgtauth?abc'',
       text_body = ''<form></form>'' \<rparr>"

definition portal_plain :: response where
  \<open>portal_plain =
     \<lparr> status_code = 200, url = ''http://gw/fgtauth?abc'',
       text_body = ''<input name="magic" value="abc123">'' \<rparr>\<close>

definition login_accepted :: response where
  \<open>login_accepted =
     \<lparr> status_code = 200, url = ''https://gw:1003/'',
       text_body = ''<script>window.location="https://gw/keepalive?id=1";</script>'' \<rparr>\<close>

definition login_rejected :: response where
  "login_rejected =
     \<lparr> status_code = 200, url = ''https://gw:1003/'', text_body = ''Authentication failed'' \<rparr>"

definition session_page :: response where
  "session_page = \<lparr> status_code = 200, url = ''https://gw/keepalive?id=1'', text_body = [] \<rparr>"

definition login_accepted_host :: response where
  \<open>login_accepted_host =
     \<lparr> status_code = 200, url = ''https://gw:1003/'',
       text_body =
         ''<script>window.location="https://keepalive.gw/keepalive?next=keepalive";</script>'' \<rparr>\<close>

definition session_page_host :: response where
  "session_page_host =
     \<lparr> status_code = 200, url = ''https://keepalive.gw/keepalive?next=keepalive'',
       text_body = [] \<rparr>"

definition portal_url :: string where
  "portal_url = ''https://gw:1003/fgtauth?abc''"

definition session_url :: string where
  "session_url = ''https://gw/keepalive?id=1''"

text \<open>
  A gateway that captures the canary request, accepts the login and serves the session
  page once more before a request fails; it then answers the canary request with a page
  without a script redirect.
\<close>

definition gw_session :: network where
  "gw_session =
     script [Response canary_captured, Response portal_page, Response login_accepted,
             Response session_page, Response session_page, RequestException,
             Response canary_blank]"

text \<open>
  A gateway whose session URL has \<^verbatim>\<open>keepalive\<close> in host, path and query; the
  first poll of the session fails, and the canary request is then answered with a page
  without a script redirect.
\<close>

definition gw_host :: network where
  "gw_host =
     script [Response canary_captured, Response portal_page, Response login_accepted_host,
             Response session_page_host, RequestException, Response canary_blank]"

text \<open>A gateway that answers the canary request with status 503 once.\<close>

definition gw_retry :: network where
  "gw_retry = script [Response unavailable, Response canary_direct]"

text \<open>
  Gateways that capture the canary request and serve a portal page, and then: the
  credential POST fails in transport; it is answered with status 503; it is answered
  without a script redirect. The first two then answer the canary request with a page
  without a script redirect. The last two serve a portal page without a secure base URL
  and one whose magic value has a dash.
\<close>

definition gw_post_down :: network where
  "gw_post_down =
     script [Response canary_captured, Response portal_page, RequestException,
             Response canary_blank]"

definition gw_post_503 :: network where
  "gw_post_503 =
     script [Response canary_captured, Response portal_page, Response unavailable,
             Response canary_blank]"

definition gw_rejected :: network where
  "gw_rejected = script [Response canary_captured, Response portal_page, Response login_rejected]"

definition gw_plain :: network where
  "gw_plain = script [Response canary_captured, Response portal_plain]"

definition gw_dashed :: network where
  "gw_dashed = script [Response canary_captured, Response portal_dashed]"

text \<open>The states of the run against \<open>gw_session\<close>, in order.\<close>

definition st_probed :: state where
  "st_probed = sent canary (console_log (init p0) ''Checking state'')"

definition st_portal :: state where
  "st_portal = sent (get_request portal_url) (console_log st_probed ''Not logged in'')"

definition st_session :: state where
  "st_session = snd (login gw_session portal_page st_portal)"

definition st_lost :: state where
  "st_lost = snd (the (keepalive sleep0 gw_session session_url st_session))"

definition st_end :: state where
  "st_end = sent canary (console_log st_lost ''Checking state'')"

text \<open>The session of \<open>gw_session\<close> under the arguments \<open>p_long\<close>.\<close>

definition st_long :: state where
  "st_long = st_session\<lparr>parser := p_long\<rparr>"

section \<open>Basic facts\<close>

lemmas scenario_defs = gw_session_def gw_retry_def gw_post_down_def gw_post_503_def
  gw_rejected_def gw_plain_def gw_dashed_def script_def steady_def p0_def canary_direct_def
  canary_captured_def canary_blank_def unavailable_def portal_page_def portal_dashed_def
  portal_plain_def portal_bare_def login_accepted_host_def session_page_host_def gw_host_def
  login_accepted_def login_rejected_def session_page_def portal_url_def session_url_def
  st_probed_def st_portal_def

lemmas effect_defs = requests_get_def requests_post_def send_def sent_def get_request_def
  post_request_def console_log_def console_error_def slept_def init_def canary_def
  user_agent_def ONE_ONE_ONE_ONE_def ONE_ONE_ONE_ONE_HTTPS_def form_data_def

lemmas regex_defs = base_url_at_def magic_at_def redirect_at_def magic_prefix_def url_class_def
  magic_class_def in_range_def newline_def dquote_def upto_last_quote_def

lemma console_fields [simp]:
  "logged_in (console_log st m) = logged_in st"
  "logout_url (console_log st m) = logout_url st"
  "clock (console_log st m) = clock st"
  "parser (console_log st m) = parser st"
  "logged_in (console_error st m) = logged_in st"
  "logout_url (console_error st m) = logout_url st"
  "clock (console_error st m) = clock st"
  "parser (console_error st m) = parser st"
  by (simp_all add: console_log_def console_error_def)

lemma console_trace:
  "\<exists>evs. trace (console_log st m) = trace st @ evs"
  "\<exists>evs. trace (console_error st m) = trace st @ evs"
  by (simp_all add: console_log_def console_error_def)

lemma slept_fields [simp]:
  "logged_in (slept st k) = logged_in st"
  "logout_url (slept st k) = logout_url st"
  "clock (slept st k) = clock st"
  "parser (slept st k) = parser st"
  "trace (slept st k) = trace st @ [Slept k]"
  by (simp_all add: slept_def)

lemma time_sleep_accepts:
  "slp (clock st) k = None \<Longrightarrow> time_sleep slp st k = (Return (), slept st k)"
  by (simp add: time_sleep_def)

lemma time_sleep_raises:
  "slp (clock st) k = Some e \<Longrightarrow> time_sleep slp st k = (Halt (Uncaught e), st)"
  by (simp add: time_sleep_def)

lemma sent_fields [simp]:
  "logged_in (sent rq st) = logged_in st"
  "logout_url (sent rq st) = logout_url st"
  "clock (sent rq st) = Suc (clock st)"
  "parser (sent rq st) = parser st"
  "trace (sent rq st) = trace st @ [Sent rq]"
  by (simp_all add: sent_def)

lemma requests_get_eq:
  "requests_get net u st = (net (clock st) (get_request u), sent (get_request u) st)"
  by (simp add: requests_get_def send_def)

lemma requests_post_eq:
  "requests_post net u data st = (net (clock st) (post_request u data), sent (post_request u data) st)"
  by (simp add: requests_post_def send_def)

subsection \<open>The run against \<open>gw_session\<close>\<close>

lemma probe_gw_session:
  "state_check gw_session (init p0) = Some ((False, canary_captured), st_probed)"
  by (simp add: state_check_def state_check_loop.simps scenario_defs effect_defs)

lemma redirect_canary_captured:
  "re_search redirect_at (text_body canary_captured) = Some portal_url"
  by (simp add: scenario_defs regex_defs)

lemma fetch_portal_gw_session:
  "gw_session (clock st_probed) (get_request portal_url) = Response portal_page"
  by (simp add: scenario_defs effect_defs)

lemma base_url_portal_page:
  "re_search base_url_at (url portal_page) = Some ''https://gw:1003/''"
  by (simp add: scenario_defs regex_defs)

lemma magic_portal_page:
  "re_search magic_at (text_body portal_page) = Some ''abc123''"
  by (simp add: scenario_defs regex_defs)

lemma redirect_login_accepted:
  "re_search redirect_at (text_body login_accepted) = Some session_url"
  by (simp add: scenario_defs regex_defs)

lemma replace_session_url:
  "py_replace ''keepalive'' ''logout'' session_url = ''https://gw/logout?id=1''"
  by (simp add: session_url_def py_replace.simps)

lemma response_fields:
  "status_code canary_direct = 200" "url canary_direct = ONE_ONE_ONE_ONE_HTTPS"
  "status_code canary_captured = 200" "url canary_captured = ONE_ONE_ONE_ONE"
  "status_code unavailable = 503" "url unavailable = ONE_ONE_ONE_ONE"
  "status_code portal_page = 200" "status_code portal_dashed = 200"
  "status_code portal_plain = 200"
  "status_code login_accepted = 200" "status_code login_rejected = 200"
  "status_code session_page = 200" "url session_page = session_url"
  "status_code canary_blank = 200" "url canary_blank = ONE_ONE_ONE_ONE"
  "status_code login_accepted_host = 200" "status_code session_page_host = 200"
  by (simp_all add: scenario_defs ONE_ONE_ONE_ONE_def ONE_ONE_ONE_ONE_HTTPS_def)

lemma gw_session_answers:
  "gw_session 2 (post_request ''https://gw:1003/'' data) = Response login_accepted"
  "gw_session 3 (get_request session_url) = Response session_page"
  "gw_session 4 (get_request session_url) = Response session_page"
  "gw_session 5 (get_request session_url) = RequestException"
  by (simp_all add: gw_session_def script_def get_request_def post_request_def session_url_def)

lemma st_portal_fields:
  "clock st_portal = 2" "parser st_portal = p0" "\<not> logged_in st_portal"
  "logout_url st_portal = []"
  by (simp_all add: st_portal_def st_probed_def init_def)

lemma login_gw_session:
  "login gw_session portal_page st_portal = (Return (True, Some session_page), st_session)"
proof -
  have "fst (login gw_session portal_page st_portal) = Return (True, Some session_page)"
    by (simp add: login_def base_url_portal_page magic_portal_page redirect_login_accepted
        requests_get_eq requests_post_eq st_portal_fields gw_session_answers response_fields)
  then show ?thesis by (simp add: st_session_def prod_eq_iff)
qed

lemma st_session_fields:
  "clock st_session = 4" "parser st_session = p0" "logged_in st_session"
  "logout_url st_session = ''https://gw/logout?id=1''"
  by (simp_all add: st_session_def login_def base_url_portal_page magic_portal_page
      redirect_login_accepted replace_session_url requests_get_eq requests_post_eq
      st_portal_fields gw_session_answers response_fields)

section \<open>The interrupt handler\<close>

lemma interupt_handler_logged_out:
  "\<not> logged_in st \<Longrightarrow> interupt_handler net st = (SystemExit 0, console_log st ''Exiting'')"
  by (simp add: interupt_handler_def)

lemma interupt_handler_answered:
  assumes "logged_in st" "net (clock st) (get_request (logout_url st)) = Response r"
  shows "fst (interupt_handler net st) = SystemExit 0"
    and "clock (snd (interupt_handler net st)) = Suc (clock st)"
  using assms by (simp_all add: interupt_handler_def requests_get_eq)

text \<open>
  C2. Claim: an interrupt delivered while logged in sends one logout request and the
  process then exits with status 0, also when that request fails. In the code a logout
  request that raises ends the handler with \<^verbatim>\<open>UnboundLocalError\<close>: with the session
  of \<open>gw_session\<close> and the network down, the request is sent, the error is logged, and the
  process ends with status 1.
\<close>

theorem interupt_handler_logout_raises:
  "logged_in st_session \<and>
   interupt_handler (steady RequestException) st_session =
     (Uncaught UnboundLocalError,
      console_error (sent (get_request ''https://gw/logout?id=1'') st_session)
        ''Cannot open URL: https://gw/logout?id=1'') \<and>
   exit_status (fst (interupt_handler (steady RequestException) st_session)) = 1"
  by (simp add: interupt_handler_def requests_get_eq st_session_fields steady_def)

section \<open>The connectivity prober\<close>

lemma state_check_loop_frame:
  assumes "state_check_loop net st = Some y"
  shows "logged_in (snd y) = logged_in st \<and> logout_url (snd y) = logout_url st
     \<and> parser (snd y) = parser st \<and> status_code (fst y) = 200 \<and> clock st < clock (snd y)
     \<and> net (clock (snd y) - 1) canary = Response (fst y)"
proof (rule state_check_loop.raw_induct [where P = "\<lambda>net st y.
     logged_in (snd y) = logged_in st \<and> logout_url (snd y) = logout_url st
     \<and> parser (snd y) = parser st \<and> status_code (fst y) = 200 \<and> clock st < clock (snd y)
     \<and> net (clock (snd y) - 1) canary = Response (fst y)", OF _ assms], goal_cases)
  case (1 f net st y)
  show ?case
  proof (cases "net (clock st) canary")
    case RequestException
    with 1(2) have "f net (console_error (sent canary st)
        (''Cannot open URL: '' @ ONE_ONE_ONE_ONE @ ''.  Retrying'')) = Some y"
      by (simp add: requests_get_eq canary_def)
    from 1(1) [OF this] show ?thesis by simp
  next
    case (Response resp)
    show ?thesis
    proof (cases "status_code resp = 200")
      case True
      with Response 1(2) have "y = (resp, sent canary st)"
        by (simp add: requests_get_eq canary_def)
      with True Response show ?thesis by simp
    next
      case False
      with Response 1(2) have "f net (sent canary st) = Some y"
        by (simp add: requests_get_eq canary_def)
      from 1(1) [OF this] show ?thesis by simp
    qed
  qed
qed

lemma state_check_loop_diverges:
  assumes "\<forall>n\<ge>clock st. \<forall>r. net n canary = Response r \<longrightarrow> status_code r \<noteq> 200"
  shows "state_check_loop net st = None"
proof (cases "state_check_loop net st")
  case None then show ?thesis .
next
  case (Some y)
  from state_check_loop_frame [OF Some]
  have "status_code (fst y) = 200" "clock st < clock (snd y)"
    "net (clock (snd y) - 1) canary = Response (fst y)"
    by simp_all
  moreover from this(2) have "clock st \<le> clock (snd y) - 1" by arith
  ultimately show ?thesis using assms by blast
qed

lemma state_check_loop_returns:
  "net (clock st) canary = Response r \<Longrightarrow> status_code r = 200 \<Longrightarrow>
   state_check_loop net st = Some (r, sent canary st)"
  by (subst state_check_loop.simps) (simp add: requests_get_eq canary_def)

lemma state_check_loop_retries:
  "net (clock st) canary = Response r \<Longrightarrow> status_code r \<noteq> 200 \<Longrightarrow>
   state_check_loop net st = state_check_loop net (sent canary st)"
  by (subst state_check_loop.simps) (simp add: requests_get_eq canary_def)

lemma state_check_Some:
  "state_check net st = Some ((b, r), st') \<longleftrightarrow>
   state_check_loop net (console_log st ''Checking state'') = Some (r, st') \<and>
   b = (url r = ONE_ONE_ONE_ONE_HTTPS)"
  by (auto simp: state_check_def split: option.splits)

lemma state_check_None:
  "state_check net st = None \<longleftrightarrow> state_check_loop net (console_log st ''Checking state'') = None"
  by (auto simp: state_check_def split: option.splits)

lemma state_check_returns:
  assumes "net (clock st) canary = Response r" "status_code r = 200"
  shows "state_check net st =
    Some ((url r = ONE_ONE_ONE_ONE_HTTPS, r), sent canary (console_log st ''Checking state''))"
proof -
  from assms have "state_check_loop net (console_log st ''Checking state'') =
      Some (r, sent canary (console_log st ''Checking state''))"
    by (simp add: state_check_loop_returns)
  then show ?thesis by (simp add: state_check_Some)
qed

text \<open>
  C3, as amended. Claim: for every response the prober obtains, it returns
  \<open>True\<close> exactly when the final URL is the secure canary address, and \<open>False\<close> with
  that response otherwise. This holds for the responses with status 200: such a response is
  returned at once, classified by its URL; and whatever the prober returns is the answer to
  the last request it sent, classified by its URL. A response with another status is not
  returned.
\<close>

theorem state_check_classifies:
  "(\<forall>r. net (clock st) canary = Response r \<longrightarrow> status_code r = 200 \<longrightarrow>
      state_check net st =
        Some ((url r = ONE_ONE_ONE_ONE_HTTPS, r), sent canary (console_log st ''Checking state''))) \<and>
   (\<forall>b r st'. state_check net st = Some ((b, r), st') \<longrightarrow>
      b = (url r = ONE_ONE_ONE_ONE_HTTPS) \<and> clock st < clock st' \<and>
      net (clock st' - 1) canary = Response r)"
proof (intro conjI allI impI)
  fix r assume "net (clock st) canary = Response r" "status_code r = 200"
  then show "state_check net st =
      Some ((url r = ONE_ONE_ONE_ONE_HTTPS, r), sent canary (console_log st ''Checking state''))"
    by (rule state_check_returns)
next
  fix b r st' assume a: "state_check net st = Some ((b, r), st')"
  then show "b = (url r = ONE_ONE_ONE_ONE_HTTPS)" by (simp add: state_check_Some)
  from a have "state_check_loop net (console_log st ''Checking state'') = Some (r, st')"
    by (simp add: state_check_Some)
  from state_check_loop_frame [OF this]
  show "clock st < clock st'" "net (clock st' - 1) canary = Response r" by simp_all
qed

text \<open>The prober against \<open>gw_retry\<close>: one retry, then the direct answer.\<close>

lemma probe_gw_retry:
  "state_check gw_retry (init p0) =
     Some ((True, canary_direct), sent canary (sent canary (console_log (init p0) ''Checking state'')))"
proof -
  have "state_check_loop gw_retry (console_log (init p0) ''Checking state'') =
      state_check_loop gw_retry (sent canary (console_log (init p0) ''Checking state''))"
    by (rule state_check_loop_retries [where r = unavailable])
       (simp_all add: gw_retry_def script_def canary_def get_request_def init_def
          ONE_ONE_ONE_ONE_def response_fields)
  also have "\<dots> = Some (canary_direct, sent canary (sent canary (console_log (init p0) ''Checking state'')))"
    by (rule state_check_loop_returns)
       (simp_all add: gw_retry_def script_def canary_def get_request_def init_def
          ONE_ONE_ONE_ONE_def response_fields)
  finally show ?thesis by (simp add: state_check_Some response_fields)
qed

text \<open>
  Witness for C3: the captured answer of \<open>gw_session\<close> is classified \<open>False\<close>, the
  direct answer of \<open>gw_retry\<close> is classified \<open>True\<close>.
\<close>

theorem state_check_classifies_witness:
  "state_check gw_session (init p0) = Some ((False, canary_captured), st_probed) \<and>
   url canary_captured \<noteq> ONE_ONE_ONE_ONE_HTTPS \<and>
   state_check gw_retry (init p0) =
     Some ((True, canary_direct), sent canary (sent canary (console_log (init p0) ''Checking state''))) \<and>
   gw_retry 1 canary = Response canary_direct \<and> url canary_direct = ONE_ONE_ONE_ONE_HTTPS"
proof -
  have a: "gw_session (clock (init p0)) canary = Response canary_captured"
    by (simp add: gw_session_def script_def canary_def get_request_def init_def ONE_ONE_ONE_ONE_def)
  have b: "status_code canary_captured = 200" by (simp add: response_fields)
  have c: "url canary_captured \<noteq> ONE_ONE_ONE_ONE_HTTPS"
    by (simp add: response_fields ONE_ONE_ONE_ONE_def ONE_ONE_ONE_ONE_HTTPS_def)
  from state_check_classifies [of gw_session "init p0"] a b c
  have 1: "state_check gw_session (init p0) = Some ((False, canary_captured), st_probed)"
    by (simp add: st_probed_def)
  from state_check_classifies [of gw_retry "init p0"] probe_gw_retry
  have 2: "gw_retry (clock (sent canary (sent canary (console_log (init p0) ''Checking state''))) - 1) canary = Response canary_direct"
    by blast
  from 1 2 c probe_gw_retry show ?thesis by (simp add: response_fields init_def)
qed

text \<open>
  Counterexample to C3 as stated: the prober obtains the response \<open>unavailable\<close>, whose URL
  is not the secure canary address, and does not return \<open>False\<close> with it; it asks again
  and returns \<open>True\<close> with the next response.
\<close>

theorem state_check_not_every_response:
  "gw_retry (clock (init p0)) canary = Response unavailable \<and>
   url unavailable \<noteq> ONE_ONE_ONE_ONE_HTTPS \<and>
   fst (the (state_check gw_retry (init p0))) = (True, canary_direct) \<and>
   fst (the (state_check gw_retry (init p0))) \<noteq> (False, unavailable)"
proof -
  have "gw_retry (clock (init p0)) canary = Response unavailable"
    by (simp add: gw_retry_def script_def canary_def get_request_def init_def ONE_ONE_ONE_ONE_def)
  moreover have "url unavailable \<noteq> ONE_ONE_ONE_ONE_HTTPS"
    by (simp add: response_fields ONE_ONE_ONE_ONE_def ONE_ONE_ONE_ONE_HTTPS_def)
  moreover have "fst (the (state_check gw_retry (init p0))) = (True, canary_direct)"
    by (simp add: probe_gw_retry)
  ultimately show ?thesis by simp
qed


text \<open>
  C9. Claim: the prober never changes \<open>logged_in\<close> and \<open>logout_url\<close>, whatever it
  returns and however often it retries; and while the network answers the canary request
  the same way at every moment, a call that returns is repeated by every other call: each
  returns the same classification and response.
\<close>

theorem state_check_frame:
  "(\<forall>y. state_check net st = Some y \<longrightarrow>
      logged_in (snd y) = logged_in st \<and> logout_url (snd y) = logout_url st) \<and>
   ((\<forall>n m. net n canary = net m canary) \<longrightarrow>
      (\<forall>y st2. state_check net st = Some y \<longrightarrow>
         (\<exists>st2'. state_check net st2 = Some (fst y, st2'))))"
proof (intro conjI allI impI)
  fix y assume "state_check net st = Some y"
  then have "state_check_loop net (console_log st ''Checking state'') = Some (snd (fst y), snd y)"
    by (cases y) (auto simp: state_check_Some)
  from state_check_loop_frame [OF this]
  show "logged_in (snd y) = logged_in st" "logout_url (snd y) = logout_url st" by simp_all
next
  fix y and st2 :: state
  assume stable: "\<forall>n m. net n canary = net m canary"
    and 1: "state_check net st = Some y"
  obtain b r st' where y: "y = ((b, r), st')" by (cases y) auto
  from 1 y have l1: "state_check_loop net (console_log st ''Checking state'') = Some (r, st')"
    and b: "b = (url r = ONE_ONE_ONE_ONE_HTTPS)" by (simp_all add: state_check_Some)
  from state_check_loop_frame [OF l1] have "net (clock st' - 1) canary = Response r"
    and "status_code r = 200" by simp_all
  with stable have "net (clock st2) canary = Response r" by metis
  from state_check_returns [of net st2 r, OF this \<open>status_code r = 200\<close>] b y
  show "\<exists>st2'. state_check net st2 = Some (fst y, st2')" by simp
qed

text \<open>
  Witness for C9: on a network that always lets the canary request through, the prober
  called in the logged-in state \<open>st_session\<close> and in the initial state.
\<close>

theorem state_check_frame_witness:
  "state_check (steady (Response canary_direct)) st_session =
     Some ((True, canary_direct), sent canary (console_log st_session ''Checking state'')) \<and>
   logged_in (sent canary (console_log st_session ''Checking state'')) = logged_in st_session \<and>
   logout_url (sent canary (console_log st_session ''Checking state'')) = logout_url st_session \<and>
   (\<exists>st2'. state_check (steady (Response canary_direct)) (init p0) =
      Some ((True, canary_direct), st2'))"
proof -
  have stable: "\<forall>n m. steady (Response canary_direct) n canary =
      steady (Response canary_direct) m canary"
    by (simp add: steady_def)
  have 1: "state_check (steady (Response canary_direct)) st_session =
      Some ((True, canary_direct), sent canary (console_log st_session ''Checking state''))"
    using state_check_returns [of "steady (Response canary_direct)" st_session canary_direct]
    by (simp add: steady_def response_fields)
  from state_check_frame [of "steady (Response canary_direct)" st_session] 1
  have 2: "logged_in (sent canary (console_log st_session ''Checking state'')) = logged_in st_session"
    "logout_url (sent canary (console_log st_session ''Checking state'')) = logout_url st_session"
    by simp_all
  from state_check_frame [of "steady (Response canary_direct)" st_session] stable 1
  have 3: "\<exists>st2'. state_check (steady (Response canary_direct)) (init p0) =
      Some (fst ((True, canary_direct), sent canary (console_log st_session ''Checking state'')), st2')"
    by blast
  from 1 2 3 show ?thesis by simp
qed

text \<open>
  C10. Claim: every response the prober returns has status 200; a response with another
  status makes the loop send the request again; and when no request from now on is
  answered with status 200, the prober never returns.
\<close>

theorem state_check_only_200:
  "(\<forall>b r st'. state_check net st = Some ((b, r), st') \<longrightarrow> status_code r = 200) \<and>
   (\<forall>r. net (clock st) canary = Response r \<longrightarrow> status_code r \<noteq> 200 \<longrightarrow>
      state_check_loop net st = state_check_loop net (sent canary st)) \<and>
   ((\<forall>n\<ge>clock st. \<forall>r. net n canary = Response r \<longrightarrow> status_code r \<noteq> 200) \<longrightarrow>
      state_check net st = None)"
proof (intro conjI allI impI)
  fix b r st' assume "state_check net st = Some ((b, r), st')"
  then have "state_check_loop net (console_log st ''Checking state'') = Some (r, st')"
    by (simp add: state_check_Some)
  from state_check_loop_frame [OF this] show "status_code r = 200" by simp
next
  fix r assume "net (clock st) canary = Response r" "status_code r \<noteq> 200"
  then show "state_check_loop net st = state_check_loop net (sent canary st)"
    by (rule state_check_loop_retries)
next
  assume "\<forall>n\<ge>clock st. \<forall>r. net n canary = Response r \<longrightarrow> status_code r \<noteq> 200"
  then have "state_check_loop net (console_log st ''Checking state'') = None"
    by (intro state_check_loop_diverges) simp
  then show "state_check net st = None" by (simp add: state_check_None)
qed

text \<open>
  Witness for C10: \<open>gw_retry\<close> answers 503 and then 200; a gateway that always answers 503
  keeps the prober in its loop for ever.
\<close>

theorem state_check_only_200_witness:
  "state_check gw_retry (init p0) =
     Some ((True, canary_direct), sent canary (sent canary (console_log (init p0) ''Checking state''))) \<and>
   status_code canary_direct = 200 \<and>
   gw_retry (clock (init p0)) canary = Response unavailable \<and> status_code unavailable \<noteq> 200 \<and>
   state_check_loop gw_retry (init p0) = state_check_loop gw_retry (sent canary (init p0)) \<and>
   state_check (steady (Response unavailable)) (init p0) = None"
proof -
  have a: "gw_retry (clock (init p0)) canary = Response unavailable"
    by (simp add: gw_retry_def script_def canary_def get_request_def init_def ONE_ONE_ONE_ONE_def)
  have b: "status_code unavailable \<noteq> 200" by (simp add: response_fields)
  have c: "\<forall>n\<ge>clock (init p0). \<forall>r. steady (Response unavailable) n canary = Response r \<longrightarrow>
      status_code r \<noteq> 200"
    by (simp add: steady_def response_fields)
  from state_check_only_200 [of gw_retry "init p0"] probe_gw_retry a b
  have "status_code canary_direct = 200"
    and "state_check_loop gw_retry (init p0) = state_check_loop gw_retry (sent canary (init p0))"
    by blast+
  moreover from state_check_only_200 [of "steady (Response unavailable)" "init p0"] c
  have "state_check (steady (Response unavailable)) (init p0) = None" by blast
  ultimately show ?thesis using probe_gw_retry a b by simp
qed

section \<open>The keepalive loop and the controller\<close>

lemma kept_alive_fields [simp]:
  "logged_in (kept_alive u st) = logged_in st"
  "logout_url (kept_alive u st) = logout_url st"
  "clock (kept_alive u st) = Suc (clock st)"
  "parser (kept_alive u st) = parser st"
  by (simp_all add: kept_alive_def)

lemma before_sleep_fields [simp]:
  "logged_in (before_sleep u st) = logged_in st"
  "logout_url (before_sleep u st) = logout_url st"
  "clock (before_sleep u st) = Suc (clock st)"
  "parser (before_sleep u st) = parser st"
  by (simp_all add: before_sleep_def)

lemma given_up_fields [simp]:
  "\<not> logged_in (given_up u m st)"
  "logout_url (given_up u m st) = logout_url st"
  "clock (given_up u m st) = Suc (clock st)"
  "parser (given_up u m st) = parser st"
  by (simp_all add: given_up_def)

lemma kept_alive_slept:
  "kept_alive u st = slept (before_sleep u st) (keepalive_seconds (parser st))"
  by (simp add: kept_alive_def before_sleep_def)

lemma keepalive_healthy:
  assumes "healthy net u (clock st)" "sleeps slp st (clock st)"
  shows "keepalive slp net u st = keepalive slp net u (kept_alive u st)"
proof -
  from assms(2) have "time_sleep slp (before_sleep u st) (keepalive_seconds (parser st)) =
      (Return (), kept_alive u st)"
    by (simp add: time_sleep_accepts sleeps_def kept_alive_slept)
  with assms(1) show ?thesis
    by (subst keepalive.simps)
       (auto simp: healthy_def requests_get_eq before_sleep_def split: net_result.splits)
qed

lemma keepalive_sleep_raises:
  assumes "healthy net u (clock st)" "slp (Suc (clock st)) (keepalive_seconds (parser st)) = Some e"
  shows "keepalive slp net u st = Some (Halt (Uncaught e), before_sleep u st)"
proof -
  from assms(2) have "time_sleep slp (before_sleep u st) (keepalive_seconds (parser st)) =
      (Halt (Uncaught e), before_sleep u st)"
    by (simp add: time_sleep_raises)
  with assms(1) show ?thesis
    by (subst keepalive.simps)
       (auto simp: healthy_def requests_get_eq before_sleep_def split: net_result.splits)
qed

lemma keepalive_lost:
  assumes "\<not> healthy net u (clock st)"
  shows "keepalive slp net u st =
    Some (Return (), given_up u (loss_message net u (clock st)) st)"
  using assms
  by (subst keepalive.simps)
     (auto simp: healthy_def requests_get_eq given_up_def loss_message_def
       split: net_result.splits)

text \<open>
  What holds of every outcome of the loop, after any number of iterations: a return is
  caused by an answer that is not healthy, a halt by the sleeper refusing the interval.
\<close>

lemma keepalive_frame:
  assumes "keepalive slp net u st = Some y"
  shows "logout_url (snd y) = logout_url st \<and> parser (snd y) = parser st \<and>
    clock st < clock (snd y) \<and>
    (case fst y of
       Return x \<Rightarrow> \<not> logged_in (snd y) \<and> \<not> healthy net u (clock (snd y) - 1)
     | Halt h \<Rightarrow> logged_in (snd y) = logged_in st \<and>
         \<not> sleeps slp st (clock (snd y) - 1))"
proof (rule keepalive.raw_induct [where P = "\<lambda>slp net u st y.
    logout_url (snd y) = logout_url st \<and> parser (snd y) = parser st \<and>
    clock st < clock (snd y) \<and>
    (case fst y of
       Return x \<Rightarrow> \<not> logged_in (snd y) \<and> \<not> healthy net u (clock (snd y) - 1)
     | Halt h \<Rightarrow> logged_in (snd y) = logged_in st \<and>
         \<not> sleeps slp st (clock (snd y) - 1))", OF _ assms], goal_cases)
  case (1 f slp net u st y)
  show ?case
  proof (cases "healthy net u (clock st)")
    case True
    show ?thesis
    proof (cases "slp (Suc (clock st)) (keepalive_seconds (parser st))")
      case None
      then have "time_sleep slp (before_sleep u st) (keepalive_seconds (parser st)) =
          (Return (), kept_alive u st)"
        by (simp add: time_sleep_accepts kept_alive_slept)
      with True 1(2) have "f slp net u (kept_alive u st) = Some y"
        by (auto simp: healthy_def requests_get_eq before_sleep_def split: net_result.splits)
      from 1(1) [OF this] show ?thesis
        by (auto simp: sleeps_def split: result.splits)
    next
      case (Some e)
      then have "time_sleep slp (before_sleep u st) (keepalive_seconds (parser st)) =
          (Halt (Uncaught e), before_sleep u st)"
        by (simp add: time_sleep_raises)
      with True 1(2) have "y = (Halt (Uncaught e), before_sleep u st)"
        by (auto simp: healthy_def requests_get_eq before_sleep_def split: net_result.splits)
      with Some show ?thesis by (simp add: sleeps_def)
    qed
  next
    case False
    with 1(2) have "y = (Return (), given_up u (loss_message net u (clock st)) st)"
      by (auto simp: healthy_def requests_get_eq given_up_def loss_message_def
          split: net_result.splits if_splits)
    with False show ?thesis by simp
  qed
qed

lemma keepalive_forever:
  assumes "\<forall>n\<ge>clock st. healthy net u n \<and> sleeps slp st n"
  shows "keepalive slp net u st = None"
proof (cases "keepalive slp net u st")
  case None then show ?thesis .
next
  case (Some y)
  note f = keepalive_frame [OF Some]
  from f have "clock st \<le> clock (snd y) - 1" by arith
  with assms have "healthy net u (clock (snd y) - 1)" "sleeps slp st (clock (snd y) - 1)"
    by blast+
  with f show ?thesis by (cases "fst y") simp_all
qed

lemma keepalive_no_halt:
  assumes "\<forall>n\<ge>clock st. sleeps slp st n"
  shows "keepalive slp net u st \<noteq> Some (Halt h, st')"
proof
  assume "keepalive slp net u st = Some (Halt h, st')"
  from keepalive_frame [OF this] have "clock st < clock st'" "\<not> sleeps slp st (clock st' - 1)"
    by simp_all
  moreover from this(1) have "clock st \<le> clock st' - 1" by arith
  ultimately show False using assms by blast
qed

text \<open>What \<open>run\<close> does once it has called \<open>login\<close>, and when the prober halts it.\<close>

lemma run_login:
  assumes "calls_login net st0 response st"
  shows "run slp net st0 =
    (case login net response st of
       (Halt h, st3) \<Rightarrow> Some (h, st3)
     | (Return (status2, response2), st3) \<Rightarrow>
         if \<not> status2 then run slp net st3
         else (case response2 of
                 None \<Rightarrow> Some (Uncaught AttributeError, st3)
               | Some r \<Rightarrow>
                   (case keepalive slp net (url r) st3 of
                      None \<Rightarrow> None
                    | Some (Halt h, st4) \<Rightarrow> Some (h, st4)
                    | Some (Return x, st4) \<Rightarrow> run slp net st4)))"
  using assms
  by (subst run.simps)
     (auto simp: calls_login_def split: option.splits prod.splits net_result.splits)

lemma run_login_halts:
  "calls_login net st0 response st \<Longrightarrow> login net response st = (Halt h, st') \<Longrightarrow>
   run slp net st0 = Some (h, st')"
  by (simp add: run_login)

lemma run_login_retries:
  "calls_login net st0 response st \<Longrightarrow> login net response st = (Return (False, r), st') \<Longrightarrow>
   run slp net st0 = run slp net st'"
  by (simp add: run_login)

lemma run_login_keepalive:
  "calls_login net st0 response st \<Longrightarrow> login net response st = (Return (True, Some r), st') \<Longrightarrow>
   run slp net st0 =
     (case keepalive slp net (url r) st' of
        None \<Rightarrow> None
      | Some (Halt h, st4) \<Rightarrow> Some (h, st4)
      | Some (Return x, st4) \<Rightarrow> run slp net st4)"
  by (simp add: run_login)

lemma run_probe_halts:
  "probe_halts net st st' \<Longrightarrow> run slp net st = Some (Uncaught TypeError, st')"
  by (subst run.simps) (auto simp: probe_halts_def split: option.splits)

lemma probe_halts_blank:
  assumes "net (clock st) canary = Response canary_blank"
  shows "probe_halts net st (sent canary (console_log st ''Checking state''))"
proof -
  from state_check_returns [of net st canary_blank, OF assms]
  have "state_check net st =
      Some ((False, canary_blank), sent canary (console_log st ''Checking state''))"
    by (simp add: response_fields ONE_ONE_ONE_ONE_def ONE_ONE_ONE_ONE_HTTPS_def)
  moreover have "re_search redirect_at (text_body canary_blank) = None"
    by (simp add: canary_blank_def redirect_at_def)
  ultimately show ?thesis by (simp add: probe_halts_def)
qed

text \<open>The run against \<open>gw_session\<close>, continued.\<close>

lemma calls_login_gw_session: "calls_login gw_session (init p0) portal_page st_portal"
  by (simp add: calls_login_def probe_gw_session redirect_canary_captured requests_get_eq
      fetch_portal_gw_session response_fields st_portal_def)

lemma healthy_gw_session: "healthy gw_session session_url 4" "\<not> healthy gw_session session_url 5"
  by (simp_all add: healthy_def gw_session_answers response_fields)

lemma sleeps_sleep0: "sleeps sleep0 st_session n"
  by (simp add: sleeps_def sleep0_def sleep_int64_def st_session_fields p0_def)

lemma loss_message_gw_session:
  "loss_message gw_session session_url 5 = ''Cannot open URL: '' @ session_url"
  by (simp add: loss_message_def gw_session_answers)

lemma keepalive_gw_session:
  "keepalive sleep0 gw_session session_url st_session =
     Some (Return (), given_up session_url (''Cannot open URL: '' @ session_url)
             (kept_alive session_url st_session))"
proof -
  have "keepalive sleep0 gw_session session_url st_session =
      keepalive sleep0 gw_session session_url (kept_alive session_url st_session)"
    by (rule keepalive_healthy)
       (simp_all add: st_session_fields healthy_gw_session sleeps_sleep0)
  also have "\<dots> = Some (Return (), given_up session_url (''Cannot open URL: '' @ session_url)
             (kept_alive session_url st_session))"
    by (subst keepalive_lost)
       (simp_all add: st_session_fields healthy_gw_session loss_message_gw_session)
  finally show ?thesis .
qed

lemma st_lost_eq:
  "st_lost = given_up session_url (''Cannot open URL: '' @ session_url)
               (kept_alive session_url st_session)"
  by (simp add: st_lost_def keepalive_gw_session)

lemma st_lost_fields:
  "clock st_lost = 6" "\<not> logged_in st_lost" "logout_url st_lost = ''https://gw/logout?id=1''"
  by (simp_all add: st_lost_eq st_session_fields)

lemma probe_halts_gw_session: "probe_halts gw_session st_lost st_end"
  unfolding st_end_def
  by (rule probe_halts_blank)
     (simp add: st_lost_fields gw_session_def script_def canary_def get_request_def
        ONE_ONE_ONE_ONE_def)

text \<open>
  C7, as amended. Claim: an iteration of the keepalive loop on \<open>u\<close> goes on (sleeps and
  repeats) exactly when the request is answered with status 200 and URL \<open>u\<close>; on a
  transport error, another status or another URL the loop logs an error, sets
  \<open>logged_in\<close> to \<open>False\<close> and returns to the controller, which starts again from the
  prober; it never ends the process. This holds when \<^verbatim>\<open>time.sleep\<close> accepts the
  keepalive interval: then a healthy answer makes the loop sleep and repeat, for ever while
  every answer is healthy, and the loop never ends the process; whatever the interval, an
  answer that is not healthy makes the loop return after that one request, and the
  controller then calls the prober in the state the loop left, so that a prober that
  halts the process halts it in the state it reached from there.
\<close>

theorem keepalive_iteration:
  "(healthy net u (clock st) \<longrightarrow> sleeps slp st (clock st) \<longrightarrow>
      keepalive slp net u st = keepalive slp net u (kept_alive u st) \<and>
      last (trace (kept_alive u st)) = Slept (keepalive_seconds (parser st))) \<and>
   (\<not> healthy net u (clock st) \<longrightarrow>
      keepalive slp net u st =
        Some (Return (), given_up u (loss_message net u (clock st)) st)) \<and>
   (\<forall>st'. keepalive slp net u st = Some (Return (), st') \<longrightarrow> \<not> logged_in st') \<and>
   ((\<forall>n\<ge>clock st. sleeps slp st n) \<longrightarrow>
      (\<forall>h st'. keepalive slp net u st \<noteq> Some (Halt h, st'))) \<and>
   ((\<forall>n\<ge>clock st. healthy net u n \<and> sleeps slp st n) \<longrightarrow> keepalive slp net u st = None) \<and>
   (\<forall>st0 response st1 r st' st2.
      calls_login net st0 response st1 \<longrightarrow>
      login net response st1 = (Return (True, Some r), st) \<longrightarrow> u = url r \<longrightarrow>
      keepalive slp net u st = Some (Return (), st') \<longrightarrow>
      run slp net st0 = run slp net st' \<and>
      (probe_halts net st' st2 \<longrightarrow> run slp net st0 = Some (Uncaught TypeError, st2)))"
proof (intro conjI allI impI)
  assume "healthy net u (clock st)" "sleeps slp st (clock st)"
  then show "keepalive slp net u st = keepalive slp net u (kept_alive u st)"
    by (rule keepalive_healthy)
  show "last (trace (kept_alive u st)) = Slept (keepalive_seconds (parser st))"
    by (simp add: kept_alive_def)
next
  assume "\<not> healthy net u (clock st)"
  then show "keepalive slp net u st =
      Some (Return (), given_up u (loss_message net u (clock st)) st)"
    by (rule keepalive_lost)
next
  fix st' assume "keepalive slp net u st = Some (Return (), st')"
  from keepalive_frame [OF this] show "\<not> logged_in st'" by simp
next
  fix h st' assume "\<forall>n\<ge>clock st. sleeps slp st n"
  then show "keepalive slp net u st \<noteq> Some (Halt h, st')" by (rule keepalive_no_halt)
next
  assume "\<forall>n\<ge>clock st. healthy net u n \<and> sleeps slp st n"
  then show "keepalive slp net u st = None" by (rule keepalive_forever)
next
  fix st0 response st1 r st' st2
  assume a: "calls_login net st0 response st1"
    "login net response st1 = (Return (True, Some r), st)"
    "u = url r" "keepalive slp net u st = Some (Return (), st')"
  then show eq: "run slp net st0 = run slp net st'" by (simp add: run_login_keepalive)
  assume "probe_halts net st' st2"
  then show "run slp net st0 = Some (Uncaught TypeError, st2)"
    unfolding eq by (rule run_probe_halts)
qed

text \<open>
  Witness for C7: the session of \<open>gw_session\<close> has one healthy iteration and is lost in
  the next; the controller calls the prober, whose captured page has no script redirect,
  and the run ends there. On a network that always serves the session page the loop does
  not return.
\<close>

theorem keepalive_iteration_witness:
  "healthy gw_session session_url (clock st_session) \<and>
   sleeps sleep0 st_session (clock st_session) \<and>
   keepalive sleep0 gw_session session_url st_session =
     keepalive sleep0 gw_session session_url (kept_alive session_url st_session) \<and>
   \<not> healthy gw_session session_url (clock (kept_alive session_url st_session)) \<and>
   keepalive sleep0 gw_session session_url st_session = Some (Return (), st_lost) \<and>
   \<not> logged_in st_lost \<and>
   probe_halts gw_session st_lost st_end \<and>
   run sleep0 gw_session (init p0) = Some (Uncaught TypeError, st_end) \<and>
   keepalive sleep0 (steady (Response session_page)) session_url st_session = None"
proof -
  have h4: "healthy gw_session session_url (clock st_session)"
    by (simp add: st_session_fields healthy_gw_session)
  have s4: "sleeps sleep0 st_session (clock st_session)" by (rule sleeps_sleep0)
  have h5: "\<not> healthy gw_session session_url (clock (kept_alive session_url st_session))"
    by (simp add: st_session_fields healthy_gw_session)
  have all: "\<forall>n\<ge>clock st_session.
      healthy (steady (Response session_page)) session_url n \<and> sleeps sleep0 st_session n"
    by (simp add: healthy_def steady_def response_fields sleeps_sleep0)
  have k: "keepalive sleep0 gw_session session_url st_session = Some (Return (), st_lost)"
    by (simp add: keepalive_gw_session st_lost_eq)
  note t = keepalive_iteration [of gw_session session_url st_session sleep0]
  from t h4 s4
  have 1: "keepalive sleep0 gw_session session_url st_session =
      keepalive sleep0 gw_session session_url (kept_alive session_url st_session)" by blast
  from t k have 2: "\<not> logged_in st_lost" by blast
  from t k calls_login_gw_session login_gw_session response_fields(13) probe_halts_gw_session
  have 3: "run sleep0 gw_session (init p0) = Some (Uncaught TypeError, st_end)" by metis
  from keepalive_iteration [of "steady (Response session_page)" session_url st_session sleep0] all
  have 4: "keepalive sleep0 (steady (Response session_page)) session_url st_session = None"
    by blast
  from h4 s4 h5 k 1 2 3 4 probe_halts_gw_session show ?thesis by simp
qed

text \<open>
  Counterexample to C7 as stated: with the keepalive interval \<^verbatim>\<open>10000000000\<close> a
  healthy answer does not make the loop sleep and repeat; \<^verbatim>\<open>time.sleep\<close> raises
  \<^verbatim>\<open>OverflowError\<close> and the loop ends the process.
\<close>

theorem keepalive_long_interval_halts:
  "healthy gw_session session_url (clock st_long) \<and>
   keepalive_seconds (parser st_long) = 10000000000 \<and>
   keepalive sleep0 gw_session session_url st_long =
     Some (Halt (Uncaught OverflowError), before_sleep session_url st_long) \<and>
   exit_status (Uncaught OverflowError) = 1"
proof -
  have c: "clock st_long = 4" "parser st_long = p_long"
    by (simp_all add: st_long_def st_session_fields)
  have h: "healthy gw_session session_url (clock st_long)"
    by (simp add: c healthy_gw_session)
  have "sleep0 (Suc (clock st_long)) (keepalive_seconds (parser st_long)) = Some OverflowError"
    by (simp add: c p_long_def sleep0_def sleep_int64_def)
  from keepalive_sleep_raises [of gw_session session_url st_long sleep0 OverflowError, OF h this]
    h c
  show ?thesis by (simp add: p_long_def)
qed

lemma py_replace_empty_iff:
  assumes "old \<noteq> []" "new \<noteq> []"
  shows "py_replace old new s = [] \<longleftrightarrow> s = []"
  using assms by (subst py_replace.simps) (simp split: list.splits option.splits)

text \<open>
  C1, as amended. Claim: after initialisation and after every return of the prober, the
  login and the keepalive loop, \<open>logout_url\<close> is non-empty if and only if \<open>logged_in\<close>
  holds. The code keeps one direction: when \<open>logged_in\<close> holds, \<open>logout_url\<close> is
  non-empty, given that a request to the empty URL raises, as \<^verbatim>\<open>requests\<close> does.
\<close>

theorem session_invariant:
  assumes "\<forall>n. net n (get_request []) = RequestException"
  shows "session_inv (init p) \<and>
    (\<forall>y. state_check net st = Some y \<longrightarrow> session_inv st \<longrightarrow> session_inv (snd y)) \<and>
    (session_inv st \<longrightarrow> session_inv (snd (login net response st))) \<and>
    (\<forall>st'. keepalive slp net u st = Some (Return (), st') \<longrightarrow> session_inv st') \<and>
    (\<forall>h st'. keepalive slp net u st = Some (Halt h, st') \<longrightarrow> session_inv st \<longrightarrow>
       session_inv st')"
proof (intro conjI allI impI)
  show "session_inv (init p)" by (simp add: session_inv_def init_def)
next
  fix y assume "state_check net st = Some y" "session_inv st"
  then have "state_check_loop net (console_log st ''Checking state'') = Some (snd (fst y), snd y)"
    by (cases y) (auto simp: state_check_Some)
  from state_check_loop_frame [OF this] \<open>session_inv st\<close>
  show "session_inv (snd y)" by (simp add: session_inv_def)
next
  assume "session_inv st"
  with assms show "session_inv (snd (login net response st))"
    by (auto simp: session_inv_def login_def requests_get_eq requests_post_eq Let_def
          py_replace_empty_iff
        split: option.splits net_result.splits)
next
  fix st' assume "keepalive slp net u st = Some (Return (), st')"
  from keepalive_frame [OF this] show "session_inv st'" by (simp add: session_inv_def)
next
  fix h st' assume "keepalive slp net u st = Some (Halt h, st')" "session_inv st"
  from keepalive_frame [OF this(1)] this(2) show "session_inv st'"
    by (simp add: session_inv_def)
qed

text \<open>Witness for C1: the states of the run against \<open>gw_session\<close>.\<close>

theorem session_invariant_witness:
  "session_inv (init p0) \<and> session_inv st_probed \<and>
   session_inv st_session \<and> logged_in st_session \<and> logout_url st_session \<noteq> [] \<and>
   session_inv st_lost"
proof -
  have H: "\<forall>n. gw_session n (get_request []) = RequestException"
    by (simp add: gw_session_def script_def get_request_def)
  from session_invariant [where net = gw_session and p = p0 and st = "init p0", OF H]
    probe_gw_session
  have 1: "session_inv (init p0)" and 2: "session_inv st_probed" by auto
  have "session_inv st_portal" by (simp add: session_inv_def st_portal_fields)
  with session_invariant [where net = gw_session and st = st_portal and response = portal_page,
      OF H] login_gw_session
  have 3: "session_inv st_session" by simp
  from session_invariant [where net = gw_session and st = st_session and u = session_url
      and slp = sleep0, OF H]
    keepalive_gw_session
  have 4: "session_inv st_lost" by (simp add: st_lost_eq)
  from 1 2 3 4 show ?thesis by (simp add: st_session_fields)
qed

text \<open>
  Counterexample to C1 as stated: after the keepalive loop has returned, \<open>logged_in\<close> is
  \<open>False\<close> and \<open>logout_url\<close> still holds the logout URL of the lost session.
\<close>

theorem session_invariant_converse_fails:
  "calls_login gw_session (init p0) portal_page st_portal \<and>
   login gw_session portal_page st_portal = (Return (True, Some session_page), st_session) \<and>
   keepalive sleep0 gw_session (url session_page) st_session = Some (Return (), st_lost) \<and>
   logout_url st_lost = ''https://gw/logout?id=1'' \<and> \<not> logged_in st_lost \<and>
   \<not> (logout_url st_lost \<noteq> [] \<longleftrightarrow> logged_in st_lost)"
proof -
  have "keepalive sleep0 gw_session (url session_page) st_session = Some (Return (), st_lost)"
    by (simp add: response_fields keepalive_gw_session st_lost_eq)
  moreover have "logout_url st_lost = ''https://gw/logout?id=1''" "\<not> logged_in st_lost"
    by (simp_all add: st_lost_fields)
  ultimately show ?thesis using calls_login_gw_session login_gw_session by simp
qed

section \<open>The scraping patterns\<close>

lemma strip_prefix_Some: "strip_prefix p s = Some r \<longleftrightarrow> s = p @ r"
  by (induction p s rule: strip_prefix.induct) auto

lemma strip_prefix_append [simp]: "strip_prefix p (p @ r) = Some r"
  by (simp add: strip_prefix_Some)

lemma re_search_hit: "m s = Some r \<Longrightarrow> re_search m s = Some r"
  by (cases s) auto

lemma re_search_Some:
  "re_search m s = Some r \<Longrightarrow> \<exists>pre suf. s = pre @ suf \<and> m suf = Some r"
proof (induction s)
  case Nil
  then show ?case by simp
next
  case (Cons c cs)
  show ?case
  proof (cases "m (c # cs)")
    case None
    with Cons.prems have "re_search m cs = Some r" by simp
    from Cons.IH [OF this] obtain pre suf where "cs = pre @ suf" "m suf = Some r" by blast
    then have "c # cs = (c # pre) @ suf \<and> m suf = Some r" by simp
    then show ?thesis by blast
  next
    case (Some a)
    with Cons.prems have "m (c # cs) = Some r" by simp
    then have "c # cs = [] @ (c # cs) \<and> m (c # cs) = Some r" by simp
    then show ?thesis by blast
  qed
qed

lemma magic_at_Some:
  "magic_at s = Some x \<Longrightarrow> \<exists>r. s = magic_prefix @ r"
  by (auto simp: magic_at_def strip_prefix_Some split: option.splits)

lemma magic_prefix_split: \<open>magic_prefix = ''name="magic"'' @ '' value="''\<close>
  by (simp add: magic_prefix_def)

lemma no_magic_field:
  assumes \<open>\<not> sublist ''name="magic"'' html\<close>
  shows "re_search magic_at html = None"
proof (cases "re_search magic_at html")
  case None then show ?thesis .
next
  case (Some x)
  from re_search_Some [OF Some] obtain pre suf where s: "html = pre @ suf" "magic_at suf = Some x"
    by blast
  from magic_at_Some [OF s(2)] obtain r where "suf = magic_prefix @ r" by blast
  with s(1) have \<open>html = pre @ ''name="magic"'' @ ('' value="'' @ r)\<close>
    by (simp add: magic_prefix_split)
  then have \<open>sublist ''name="magic"'' html\<close> unfolding sublist_def by blast
  with assms show ?thesis by simp
qed

lemma magic_class_head: "magic_class (hd magic_prefix)" "magic_prefix \<noteq> []"
  by (simp_all add: magic_prefix_def magic_class_def in_range_def)

lemma takeWhile_magic_prefix: "takeWhile magic_class (magic_prefix @ r) = ''name''"
  "dropWhile magic_class (magic_prefix @ r) = drop 4 magic_prefix @ r"
  by (simp_all add: magic_prefix_def magic_class_def in_range_def)

lemma not_magic_class_dquote [simp]: "\<not> magic_class dquote"
  by (simp add: magic_class_def dquote_def in_range_def)

lemma magic_at_here:
  assumes "X \<noteq> []" "\<forall>c\<in>set X. magic_class c"
  shows "magic_at (magic_prefix @ X @ dquote # post) = Some X"
proof -
  have "takeWhile magic_class (X @ dquote # post) = X"
    using assms(2) by (simp add: takeWhile_append2 takeWhile_eq_all_conv)
  moreover have "dropWhile magic_class (X @ dquote # post) = dquote # post"
    using assms(2) by (simp add: dropWhile_append2)
  ultimately show ?thesis using assms(1) by (simp add: magic_at_def)
qed


text \<open>
  The literal part of the magic pattern does not overlap itself, so a match that starts
  before an occurrence of the literal ends before it.
\<close>

lemma magic_prefix_border: "hd magic_prefix \<notin> set (tl magic_prefix)"
  by (simp add: magic_prefix_def)

lemma magic_prefix_no_overlap:
  assumes "pre @ magic_prefix @ rest = magic_prefix @ r" "pre \<noteq> []"
  shows "length magic_prefix \<le> length pre"
proof (rule ccontr)
  assume "\<not> length magic_prefix \<le> length pre"
  then have lt: "length pre < length magic_prefix" by simp
  have "(pre @ magic_prefix @ rest) ! length pre = hd magic_prefix"
    using magic_class_head(2) by (simp add: nth_append hd_conv_nth)
  moreover have "(magic_prefix @ r) ! length pre = magic_prefix ! length pre"
    using lt by (simp add: nth_append)
  moreover have "magic_prefix ! length pre \<in> set (tl magic_prefix)"
  proof -
    from assms(2) obtain k where k: "length pre = Suc k" by (cases pre) auto
    with lt have "k < length (tl magic_prefix)" by simp
    then have "tl magic_prefix ! k \<in> set (tl magic_prefix)" by (rule nth_mem)
    then show ?thesis using k lt by (simp add: nth_tl)
  qed
  ultimately show False using assms(1) magic_prefix_border by simp
qed

lemma magic_at_extend:
  assumes "pre \<noteq> []" "magic_at pre = None"
  shows "magic_at (pre @ magic_prefix @ rest) = None"
proof (cases "strip_prefix magic_prefix (pre @ magic_prefix @ rest)")
  case None
  then show ?thesis by (simp add: magic_at_def)
next
  case (Some r)
  then have eq: "pre @ magic_prefix @ rest = magic_prefix @ r" by (simp add: strip_prefix_Some)
  from magic_prefix_no_overlap [OF eq assms(1)] have le: "length magic_prefix \<le> length pre" .
  define r0 where "r0 = drop (length magic_prefix) pre"
  from eq have "take (length magic_prefix) (pre @ magic_prefix @ rest) = magic_prefix"
    and "drop (length magic_prefix) (pre @ magic_prefix @ rest) = r"
    by simp_all
  with le have r0: "pre = magic_prefix @ r0" "r = r0 @ magic_prefix @ rest"
    unfolding r0_def by (simp_all, metis append_take_drop_id)
  have full: "magic_at (pre @ magic_prefix @ rest) =
      (if takeWhile magic_class (r0 @ magic_prefix @ rest) = [] then None
       else (case dropWhile magic_class (r0 @ magic_prefix @ rest) of
               [] \<Rightarrow> None
             | c # _ \<Rightarrow> if c = dquote then Some (takeWhile magic_class (r0 @ magic_prefix @ rest))
                        else None))"
    using r0 by (simp add: magic_at_def)
  show ?thesis
  proof (cases "\<forall>c\<in>set r0. magic_class c")
    case True
    then have "dropWhile magic_class (r0 @ magic_prefix @ rest) = drop 4 magic_prefix @ rest"
      by (simp add: dropWhile_append2 takeWhile_magic_prefix)
    then show ?thesis unfolding full by (simp add: magic_prefix_def dquote_def)
  next
    case False
    then obtain c where c: "c \<in> set r0" "\<not> magic_class c" by blast
    then have tw: "takeWhile magic_class (r0 @ magic_prefix @ rest) = takeWhile magic_class r0"
      and dw: "dropWhile magic_class (r0 @ magic_prefix @ rest) = dropWhile magic_class r0 @ magic_prefix @ rest"
      by (simp_all add: takeWhile_append1 dropWhile_append1)
    from c have ne: "dropWhile magic_class r0 \<noteq> []" by auto
    from assms(2) r0(1) have "takeWhile magic_class r0 = [] \<or> hd (dropWhile magic_class r0) \<noteq> dquote"
      using ne by (auto simp: magic_at_def split: if_splits list.splits)
    then show ?thesis unfolding full tw dw using ne
      by (cases "dropWhile magic_class r0") auto
  qed
qed

lemma magic_search_first:
  assumes "X \<noteq> []" "\<forall>c\<in>set X. magic_class c" "re_search magic_at pre = None"
  shows "re_search magic_at (pre @ magic_prefix @ X @ dquote # post) = Some X"
  using assms(3)
proof (induction pre)
  case Nil
  show ?case using magic_at_here [OF assms(1,2)] by (simp add: re_search_hit)
next
  case (Cons c cs)
  from Cons.prems have none: "magic_at (c # cs) = None" and rest: "re_search magic_at cs = None"
    by (auto split: option.splits)
  from magic_at_extend [OF _ none] have "magic_at ((c # cs) @ magic_prefix @ X @ dquote # post) = None"
    by simp
  then show ?case using Cons.IH [OF rest] by simp
qed

section \<open>The login\<close>

lemma calls_login_script:
  assumes "status_code pg = 200"
  shows "calls_login (script (Response canary_captured # Response pg # rest)) (init p0) pg st_portal"
proof -
  let ?net = "script (Response canary_captured # Response pg # rest)"
  have "?net (clock (init p0)) canary = Response canary_captured"
    by (simp add: script_def canary_def get_request_def init_def ONE_ONE_ONE_ONE_def)
  then have "state_check ?net (init p0) = Some ((False, canary_captured), st_probed)"
    using state_check_returns [of ?net "init p0" canary_captured]
    by (simp add: response_fields st_probed_def ONE_ONE_ONE_ONE_def ONE_ONE_ONE_ONE_HTTPS_def)
  moreover have "?net (clock st_probed) (get_request portal_url) = Response pg"
    by (simp add: script_def get_request_def st_probed_def init_def portal_url_def)
  ultimately show ?thesis using assms
    by (simp add: calls_login_def redirect_canary_captured requests_get_eq st_portal_def)
qed

lemma login_no_base_url:
  "re_search base_url_at (url response) = None \<Longrightarrow>
   login net response st =
     (Halt (SystemExit 1), console_error st ''Cound not find base URL via regex match. Exiting'')"
  by (simp add: login_def)

lemma login_no_magic:
  "re_search base_url_at (url response) = Some u \<Longrightarrow>
   re_search magic_at (text_body response) = None \<Longrightarrow>
   login net response st =
     (Halt (SystemExit 1), console_error st ''Could not find magic value via regex match. Exiting'')"
  by (simp add: login_def)

lemma login_post_raises:
  "re_search base_url_at (url response) = Some u \<Longrightarrow>
   re_search magic_at (text_body response) = Some magic \<Longrightarrow>
   net (clock st) (post_request u (form_data (parser st) magic)) = RequestException \<Longrightarrow>
   login net response st =
     (Return (False, None),
      console_error (sent (post_request u (form_data (parser st) magic)) st)
        (''Cannot open URL: '' @ u))"
  by (simp add: login_def requests_post_eq)

lemma login_post_status:
  "re_search base_url_at (url response) = Some u \<Longrightarrow>
   re_search magic_at (text_body response) = Some magic \<Longrightarrow>
   net (clock st) (post_request u (form_data (parser st) magic)) = Response r \<Longrightarrow>
   status_code r \<noteq> 200 \<Longrightarrow>
   login net response st =
     (Return (False, Some r), sent (post_request u (form_data (parser st) magic)) st)"
  by (simp add: login_def requests_post_eq)

lemma login_no_redirect:
  "re_search base_url_at (url response) = Some u \<Longrightarrow>
   re_search magic_at (text_body response) = Some magic \<Longrightarrow>
   net (clock st) (post_request u (form_data (parser st) magic)) = Response r \<Longrightarrow>
   status_code r = 200 \<Longrightarrow> re_search redirect_at (text_body r) = None \<Longrightarrow>
   login net response st =
     (Halt (SystemExit 1),
      console_error (sent (post_request u (form_data (parser st) magic)) st)
        ''Invalid username/password combination. Exiting'')"
  by (simp add: login_def requests_post_eq)

lemma login_True:
  assumes "login net response st = (Return (True, r), st')"
  shows "\<exists>u magic r1 u2 r2.
     re_search base_url_at (url response) = Some u \<and>
     re_search magic_at (text_body response) = Some magic \<and>
     net (clock st) (post_request u (form_data (parser st) magic)) = Response r1 \<and>
     status_code r1 = 200 \<and> re_search redirect_at (text_body r1) = Some u2 \<and>
     net (Suc (clock st)) (get_request u2) = Response r2 \<and> status_code r2 = 200 \<and>
     r = Some r2 \<and> logged_in st' \<and>
     logout_url st' = py_replace ''keepalive'' ''logout'' u2 \<and>
     clock st' = Suc (Suc (clock st))"
  using assms
  by (auto simp: login_def requests_get_eq requests_post_eq Let_def
      split: option.splits net_result.splits if_splits)

lemma login_trace_post:
  assumes "re_search base_url_at (url response) = Some u"
    "re_search magic_at (text_body response) = Some magic"
  shows "\<exists>evs. trace (snd (login net response st)) =
     trace st @ Sent (post_request u (form_data (parser st) magic)) # evs"
  using assms
  by (auto simp: login_def requests_get_eq requests_post_eq Let_def console_log_def
        console_error_def
      split: option.splits net_result.splits)

text \<open>
  C5. Claim: when the credential POST fails in transport, the login returns
  \<open>(False, None)\<close>; when it is answered with a status other than 200, the login returns
  \<open>(False, response)\<close>; in both cases \<open>logged_in\<close> and \<open>logout_url\<close> are unchanged, one
  request has been sent, and the controller starts again from the prober: it calls the
  prober in the state the login left, so that a prober that halts the process there halts
  it in the state it reached from that one.
\<close>

theorem login_post_failure_retryable:
  assumes "re_search base_url_at (url response) = Some u"
    and "re_search magic_at (text_body response) = Some magic"
  shows
   "(net (clock st) (post_request u (form_data (parser st) magic)) = RequestException \<longrightarrow>
       fst (login net response st) = Return (False, None)) \<and>
    (\<forall>r. net (clock st) (post_request u (form_data (parser st) magic)) = Response r \<longrightarrow>
       status_code r \<noteq> 200 \<longrightarrow> fst (login net response st) = Return (False, Some r)) \<and>
    ((\<forall>r. net (clock st) (post_request u (form_data (parser st) magic)) = Response r \<longrightarrow>
        status_code r \<noteq> 200) \<longrightarrow>
       logged_in (snd (login net response st)) = logged_in st \<and>
       logout_url (snd (login net response st)) = logout_url st \<and>
       clock (snd (login net response st)) = Suc (clock st) \<and>
       (\<forall>st0. calls_login net st0 response st \<longrightarrow>
          run slp net st0 = run slp net (snd (login net response st)) \<and>
          (\<forall>st2. probe_halts net (snd (login net response st)) st2 \<longrightarrow>
             run slp net st0 = Some (Uncaught TypeError, st2))))"
proof (intro conjI allI impI)
  assume "net (clock st) (post_request u (form_data (parser st) magic)) = RequestException"
  with assms show "fst (login net response st) = Return (False, None)"
    by (simp add: login_post_raises)
next
  fix r
  assume "net (clock st) (post_request u (form_data (parser st) magic)) = Response r"
    "status_code r \<noteq> 200"
  with assms show "fst (login net response st) = Return (False, Some r)"
    by (simp add: login_post_status)
next
  assume fails: "\<forall>r. net (clock st) (post_request u (form_data (parser st) magic)) = Response r \<longrightarrow>
     status_code r \<noteq> 200"
  have "\<exists>x. login net response st = (Return (False, x), snd (login net response st)) \<and>
      logged_in (snd (login net response st)) = logged_in st \<and>
      logout_url (snd (login net response st)) = logout_url st \<and>
      clock (snd (login net response st)) = Suc (clock st)"
  proof (cases "net (clock st) (post_request u (form_data (parser st) magic))")
    case RequestException
    with assms show ?thesis by (simp add: login_post_raises)
  next
    case (Response r)
    with fails have "status_code r \<noteq> 200" by simp
    with assms Response show ?thesis by (simp add: login_post_status)
  qed
  then obtain x where x: "login net response st = (Return (False, x), snd (login net response st))"
    and frame: "logged_in (snd (login net response st)) = logged_in st"
      "logout_url (snd (login net response st)) = logout_url st"
      "clock (snd (login net response st)) = Suc (clock st)"
    by blast
  from frame show "logged_in (snd (login net response st)) = logged_in st"
    "logout_url (snd (login net response st)) = logout_url st"
    "clock (snd (login net response st)) = Suc (clock st)" by simp_all
  fix st0 assume "calls_login net st0 response st"
  from run_login_retries [OF this x]
  show eq: "run slp net st0 = run slp net (snd (login net response st))" .
  fix st2 assume "probe_halts net (snd (login net response st)) st2"
  then show "run slp net st0 = Some (Uncaught TypeError, st2)"
    unfolding eq by (rule run_probe_halts)
qed

text \<open>The answers of the concrete gateways to the credential POST, and what follows.\<close>

lemma gw_post_answers:
  "gw_post_down 2 (post_request u data) = (if u = [] then RequestException else RequestException)"
  "gw_post_503 2 (post_request u data) = (if u = [] then RequestException else Response unavailable)"
  "gw_rejected 2 (post_request u data) =
     (if u = [] then RequestException else Response login_rejected)"
  by (simp_all add: gw_post_down_def gw_post_503_def gw_rejected_def script_def post_request_def)

lemma gw_post_canary:
  "gw_post_down 3 canary = Response canary_blank"
  "gw_post_503 3 canary = Response canary_blank"
  by (simp_all add: gw_post_down_def gw_post_503_def script_def canary_def get_request_def
      ONE_ONE_ONE_ONE_def)

text \<open>
  Witness for C5: against \<open>gw_post_down\<close> and \<open>gw_post_503\<close> the login fails, the
  controller calls the prober, and the captured page without a script redirect ends the
  run one canary request after the state the login left.
\<close>

theorem login_post_failure_retryable_witness:
  "calls_login gw_post_down (init p0) portal_page st_portal \<and>
   login gw_post_down portal_page st_portal =
     (Return (False, None),
      console_error (sent (post_request ''https://gw:1003/'' (form_data p0 ''abc123'')) st_portal)
        ''Cannot open URL: https://gw:1003/'') \<and>
   logged_in (snd (login gw_post_down portal_page st_portal)) = logged_in st_portal \<and>
   logout_url (snd (login gw_post_down portal_page st_portal)) = logout_url st_portal \<and>
   run sleep0 gw_post_down (init p0) =
     Some (Uncaught TypeError,
           sent canary
             (console_log (snd (login gw_post_down portal_page st_portal)) ''Checking state'')) \<and>
   calls_login gw_post_503 (init p0) portal_page st_portal \<and>
   login gw_post_503 portal_page st_portal =
     (Return (False, Some unavailable),
      sent (post_request ''https://gw:1003/'' (form_data p0 ''abc123'')) st_portal) \<and>
   run sleep0 gw_post_503 (init p0) =
     Some (Uncaught TypeError,
           sent canary
             (console_log (snd (login gw_post_503 portal_page st_portal)) ''Checking state''))"
proof -
  have c1: "calls_login gw_post_down (init p0) portal_page st_portal"
    unfolding gw_post_down_def by (rule calls_login_script) (simp add: response_fields)
  have c2: "calls_login gw_post_503 (init p0) portal_page st_portal"
    unfolding gw_post_503_def by (rule calls_login_script) (simp add: response_fields)
  have down: "gw_post_down (clock st_portal)
      (post_request ''https://gw:1003/'' (form_data (parser st_portal) ''abc123'')) = RequestException"
    by (simp add: st_portal_fields gw_post_answers)
  have busy: "gw_post_503 (clock st_portal)
      (post_request ''https://gw:1003/'' (form_data (parser st_portal) ''abc123'')) =
      Response unavailable"
    by (simp add: st_portal_fields gw_post_answers)
  have s: "status_code unavailable \<noteq> 200" by (simp add: response_fields)
  have l1: "login gw_post_down portal_page st_portal =
     (Return (False, None),
      console_error (sent (post_request ''https://gw:1003/'' (form_data p0 ''abc123'')) st_portal)
        ''Cannot open URL: https://gw:1003/'')"
    using login_post_raises [of portal_page _ _ gw_post_down st_portal,
        OF base_url_portal_page magic_portal_page down]
    by (simp add: st_portal_fields)
  have l2: "login gw_post_503 portal_page st_portal =
     (Return (False, Some unavailable),
      sent (post_request ''https://gw:1003/'' (form_data p0 ''abc123'')) st_portal)"
    using login_post_status [of portal_page _ _ gw_post_503 st_portal,
        OF base_url_portal_page magic_portal_page busy s]
    by (simp add: st_portal_fields)
  have p1: "probe_halts gw_post_down (snd (login gw_post_down portal_page st_portal))
      (sent canary (console_log (snd (login gw_post_down portal_page st_portal)) ''Checking state''))"
    by (rule probe_halts_blank) (simp add: l1 st_portal_fields gw_post_canary)
  have p2: "probe_halts gw_post_503 (snd (login gw_post_503 portal_page st_portal))
      (sent canary (console_log (snd (login gw_post_503 portal_page st_portal)) ''Checking state''))"
    by (rule probe_halts_blank) (simp add: l2 st_portal_fields gw_post_canary)
  note d = login_post_failure_retryable [where net = gw_post_down and st = st_portal
      and slp = sleep0, OF base_url_portal_page magic_portal_page]
  note b = login_post_failure_retryable [where net = gw_post_503 and st = st_portal
      and slp = sleep0, OF base_url_portal_page magic_portal_page]
  have hd: "\<forall>r. gw_post_down (clock st_portal)
      (post_request ''https://gw:1003/'' (form_data (parser st_portal) ''abc123'')) = Response r \<longrightarrow>
      status_code r \<noteq> 200"
    using down by simp
  have hb: "\<forall>r. gw_post_503 (clock st_portal)
      (post_request ''https://gw:1003/'' (form_data (parser st_portal) ''abc123'')) = Response r \<longrightarrow>
      status_code r \<noteq> 200"
    using busy s by simp
  from d hd have 1:
    "logged_in (snd (login gw_post_down portal_page st_portal)) = logged_in st_portal"
    "logout_url (snd (login gw_post_down portal_page st_portal)) = logout_url st_portal"
    and r1: "\<forall>st0. calls_login gw_post_down st0 portal_page st_portal \<longrightarrow>
      (\<forall>st2. probe_halts gw_post_down (snd (login gw_post_down portal_page st_portal)) st2 \<longrightarrow>
         run sleep0 gw_post_down st0 = Some (Uncaught TypeError, st2))"
    by blast+
  from b hb have r2: "\<forall>st0. calls_login gw_post_503 st0 portal_page st_portal \<longrightarrow>
      (\<forall>st2. probe_halts gw_post_503 (snd (login gw_post_503 portal_page st_portal)) st2 \<longrightarrow>
         run sleep0 gw_post_503 st0 = Some (Uncaught TypeError, st2))"
    by blast
  from r1 c1 p1 have 3: "run sleep0 gw_post_down (init p0) =
     Some (Uncaught TypeError,
           sent canary
             (console_log (snd (login gw_post_down portal_page st_portal)) ''Checking state''))"
    by blast
  from r2 c2 p2 have 2: "run sleep0 gw_post_503 (init p0) =
     Some (Uncaught TypeError,
           sent canary
             (console_log (snd (login gw_post_503 portal_page st_portal)) ''Checking state''))"
    by blast
  from c1 c2 l1 l2 1 2 3 show ?thesis by (intro conjI)
qed

text \<open>
  C6, as amended. Claim: every successful login sets \<open>logged_in\<close>, sets \<open>logout_url\<close> to
  the followed URL with its \<^verbatim>\<open>keepalive\<close> path segment replaced by \<^verbatim>\<open>logout\<close>,
  and the URL of the final response is the one the keepalive loop polls; the session URL
  \<^verbatim>\<open>https://gw/keepalive?id=1\<close> gives the logout URL \<^verbatim>\<open>https://gw/logout?id=1\<close>.
  In the code every occurrence of \<^verbatim>\<open>keepalive\<close> in the followed URL (the script
  redirect of the answer to the credential POST) is replaced, in host and query as in the
  path; the rest holds: the login returns the response to the followed URL, and the
  controller runs the keepalive loop on the URL of that response, so that a first poll
  that fails is a request for that URL, after which the controller calls the prober.
\<close>

theorem login_success:
  assumes "login net response st = (Return (True, r), st')"
  shows "\<exists>u magic r1 u2 r2.
     net (clock st) (post_request u (form_data (parser st) magic)) = Response r1 \<and>
     re_search redirect_at (text_body r1) = Some u2 \<and>
     net (Suc (clock st)) (get_request u2) = Response r2 \<and> status_code r2 = 200 \<and>
     r = Some r2 \<and> logged_in st' \<and>
     logout_url st' = py_replace ''keepalive'' ''logout'' u2 \<and>
     (\<forall>st0. calls_login net st0 response st \<longrightarrow>
        run slp net st0 =
          (case keepalive slp net (url r2) st' of
             None \<Rightarrow> None
           | Some (Halt h, st4) \<Rightarrow> Some (h, st4)
           | Some (Return x, st4) \<Rightarrow> run slp net st4) \<and>
        (\<forall>st2. \<not> healthy net (url r2) (clock st') \<longrightarrow>
           probe_halts net
             (given_up (url r2) (loss_message net (url r2) (clock st')) st') st2 \<longrightarrow>
           run slp net st0 = Some (Uncaught TypeError, st2))) \<and>
     py_replace ''keepalive'' ''logout'' ''https://gw/keepalive?id=1'' = ''https://gw/logout?id=1''"
proof -
  from login_True [OF assms] obtain u magic r1 u2 r2 where
    p: "net (clock st) (post_request u (form_data (parser st) magic)) = Response r1"
      "re_search redirect_at (text_body r1) = Some u2"
      "net (Suc (clock st)) (get_request u2) = Response r2" "status_code r2 = 200"
    and r: "r = Some r2"
    and st': "logged_in st'" "logout_url st' = py_replace ''keepalive'' ''logout'' u2"
    by blast
  have run: "run slp net st0 =
      (case keepalive slp net (url r2) st' of
         None \<Rightarrow> None
       | Some (Halt h, st4) \<Rightarrow> Some (h, st4)
       | Some (Return x, st4) \<Rightarrow> run slp net st4)"
    if "calls_login net st0 response st" for st0
    using run_login_keepalive [OF that] assms r by simp
  have lost: "run slp net st0 = Some (Uncaught TypeError, st2)"
    if "calls_login net st0 response st" "\<not> healthy net (url r2) (clock st')"
      "probe_halts net (given_up (url r2) (loss_message net (url r2) (clock st')) st') st2"
    for st0 st2
    using run [OF that(1)] keepalive_lost [OF that(2)] run_probe_halts [OF that(3)]
    by simp
  have ex: "py_replace ''keepalive'' ''logout'' ''https://gw/keepalive?id=1'' = ''https://gw/logout?id=1''"
    using replace_session_url by (simp add: session_url_def)
  from p r st' run lost ex show ?thesis by blast
qed

text \<open>The login against \<open>gw_host\<close>, and what follows it.\<close>

lemma redirect_login_accepted_host:
  "re_search redirect_at (text_body login_accepted_host) =
     Some ''https://keepalive.gw/keepalive?next=keepalive''"
  by (simp add: login_accepted_host_def regex_defs)

lemma replace_host_url:
  "py_replace ''keepalive'' ''logout'' ''https://keepalive.gw/keepalive?next=keepalive'' =
     ''https://logout.gw/logout?next=logout''"
  by (simp add: py_replace.simps)

lemma gw_host_answers:
  "gw_host 2 (post_request ''https://gw:1003/'' data) = Response login_accepted_host"
  "gw_host 3 (get_request ''https://keepalive.gw/keepalive?next=keepalive'') =
     Response session_page_host"
  "gw_host 4 (get_request ''https://keepalive.gw/keepalive?next=keepalive'') = RequestException"
  "gw_host 5 canary = Response canary_blank"
  by (simp_all add: gw_host_def script_def get_request_def post_request_def canary_def
      ONE_ONE_ONE_ONE_def)

lemma login_gw_host:
  "fst (login gw_host portal_page st_portal) = Return (True, Some session_page_host)"
  "logout_url (snd (login gw_host portal_page st_portal)) = ''https://logout.gw/logout?next=logout''"
  "clock (snd (login gw_host portal_page st_portal)) = 4"
  by (simp_all add: login_def base_url_portal_page magic_portal_page
      redirect_login_accepted_host replace_host_url requests_get_eq requests_post_eq
      st_portal_fields gw_host_answers response_fields)

text \<open>
  Witness for C6: the login against \<open>gw_session\<close>, with the URLs of the claim; and the
  run against \<open>gw_host\<close>, where the first poll fails: the run ends in the state reached
  from the login by giving up the session URL and probing once.
\<close>

theorem login_success_witness:
  "login gw_session portal_page st_portal = (Return (True, Some session_page), st_session) \<and>
   re_search redirect_at (text_body login_accepted) = Some session_url \<and>
   session_url = ''https://gw/keepalive?id=1'' \<and>
   logged_in st_session \<and> logout_url st_session = ''https://gw/logout?id=1'' \<and>
   run sleep0 gw_session (init p0) =
     (case keepalive sleep0 gw_session (url session_page) st_session of
        None \<Rightarrow> None
      | Some (Halt h, st4) \<Rightarrow> Some (h, st4)
      | Some (Return x, st4) \<Rightarrow> run sleep0 gw_session st4) \<and>
   run sleep0 gw_host (init p0) =
     Some (Uncaught TypeError,
           sent canary
             (console_log
                (given_up (url session_page_host)
                   (''Cannot open URL: '' @ url session_page_host)
                   (snd (login gw_host portal_page st_portal)))
                ''Checking state''))"
proof -
  from login_success [OF login_gw_session, of sleep0] obtain u2 where
    "logged_in st_session" "logout_url st_session = py_replace ''keepalive'' ''logout'' u2"
    and "\<forall>st0. calls_login gw_session st0 portal_page st_portal \<longrightarrow>
        run sleep0 gw_session st0 =
          (case keepalive sleep0 gw_session (url session_page) st_session of
             None \<Rightarrow> None
           | Some (Halt h, st4) \<Rightarrow> Some (h, st4)
           | Some (Return x, st4) \<Rightarrow> run sleep0 gw_session st4)"
    by auto
  with calls_login_gw_session have 1: "run sleep0 gw_session (init p0) =
     (case keepalive sleep0 gw_session (url session_page) st_session of
        None \<Rightarrow> None
      | Some (Halt h, st4) \<Rightarrow> Some (h, st4)
      | Some (Return x, st4) \<Rightarrow> run sleep0 gw_session st4)"
    by blast
  let ?st = "snd (login gw_host portal_page st_portal)"
  let ?u = "url session_page_host"
  have u: "?u = ''https://keepalive.gw/keepalive?next=keepalive''"
    by (simp add: session_page_host_def)
  have l: "login gw_host portal_page st_portal = (Return (True, Some session_page_host), ?st)"
    using login_gw_host(1) by (simp add: prod_eq_iff)
  have c: "calls_login gw_host (init p0) portal_page st_portal"
    unfolding gw_host_def by (rule calls_login_script) (simp add: response_fields)
  have nh: "\<not> healthy gw_host ?u (clock ?st)"
    by (simp add: healthy_def u login_gw_host gw_host_answers)
  have m: "loss_message gw_host ?u (clock ?st) = ''Cannot open URL: '' @ ?u"
    by (simp add: loss_message_def u login_gw_host gw_host_answers)
  have ph: "probe_halts gw_host (given_up ?u (''Cannot open URL: '' @ ?u) ?st)
      (sent canary (console_log (given_up ?u (''Cannot open URL: '' @ ?u) ?st) ''Checking state''))"
    by (rule probe_halts_blank) (simp add: login_gw_host gw_host_answers)
  from login_success [OF l, of sleep0] c nh ph m
  have 2: "run sleep0 gw_host (init p0) =
     Some (Uncaught TypeError,
           sent canary (console_log (given_up ?u (''Cannot open URL: '' @ ?u) ?st) ''Checking state''))"
    by auto
  from 1 2 login_gw_session redirect_login_accepted st_session_fields
  show ?thesis by (simp add: session_url_def)
qed

text \<open>
  Counterexample to C6 as stated: the followed URL
  \<^verbatim>\<open>https://keepalive.gw/keepalive?next=keepalive\<close> gives the logout URL
  \<^verbatim>\<open>https://logout.gw/logout?next=logout\<close>, not the URL in which only the path
  segment is replaced.
\<close>

theorem logout_url_replaces_beyond_path:
  "fst (login gw_host portal_page st_portal) = Return (True, Some session_page_host) \<and>
   re_search redirect_at (text_body login_accepted_host) =
     Some ''https://keepalive.gw/keepalive?next=keepalive'' \<and>
   logout_url (snd (login gw_host portal_page st_portal)) =
     ''https://logout.gw/logout?next=logout'' \<and>
   logout_url (snd (login gw_host portal_page st_portal)) \<noteq>
     ''https://keepalive.gw/logout?next=keepalive''"
  by (simp add: login_gw_host redirect_login_accepted_host)

text \<open>
  C8. Claim: a portal response without a base URL in its URL, a portal page without a magic
  value, and an answer with status 200 to the credential POST without a script redirect
  each end the process with exit status 1, at once and without a retry; in the last case
  the message about an invalid user name or password goes to the console as an error.
\<close>

theorem fatal_scrape_exits:
  "(re_search base_url_at (url response) = None \<or>
    re_search magic_at (text_body response) = None \<longrightarrow>
      fst (login net response st) = Halt (SystemExit 1) \<and>
      clock (snd (login net response st)) = clock st) \<and>
   (\<forall>u magic r1.
      re_search base_url_at (url response) = Some u \<longrightarrow>
      re_search magic_at (text_body response) = Some magic \<longrightarrow>
      net (clock st) (post_request u (form_data (parser st) magic)) = Response r1 \<longrightarrow>
      status_code r1 = 200 \<longrightarrow> re_search redirect_at (text_body r1) = None \<longrightarrow>
      login net response st =
        (Halt (SystemExit 1),
         console_error (sent (post_request u (form_data (parser st) magic)) st)
           ''Invalid username/password combination. Exiting'') \<and>
      (verbose (parser st) \<longrightarrow>
         trace (snd (login net response st)) =
           trace st @ [Sent (post_request u (form_data (parser st) magic)),
                       Logged ERROR ''Invalid username/password combination. Exiting''])) \<and>
   (\<forall>st0 st'. calls_login net st0 response st \<longrightarrow>
      login net response st = (Halt (SystemExit 1), st') \<longrightarrow>
      run slp net st0 = Some (SystemExit 1, st') \<and> exit_status (fst (the (run slp net st0))) = 1)"
proof (intro conjI allI impI)
  assume a: "re_search base_url_at (url response) = None \<or>
    re_search magic_at (text_body response) = None"
  show "fst (login net response st) = Halt (SystemExit 1)"
  proof (cases "re_search base_url_at (url response)")
    case None
    then show ?thesis by (simp add: login_no_base_url)
  next
    case (Some u)
    with a show ?thesis by (auto simp: login_no_magic)
  qed
  show "clock (snd (login net response st)) = clock st"
  proof (cases "re_search base_url_at (url response)")
    case None
    then show ?thesis by (simp add: login_no_base_url)
  next
    case (Some u)
    with a show ?thesis by (auto simp: login_no_magic)
  qed
next
  fix u magic r1
  assume "re_search base_url_at (url response) = Some u"
    "re_search magic_at (text_body response) = Some magic"
    "net (clock st) (post_request u (form_data (parser st) magic)) = Response r1"
    "status_code r1 = 200" "re_search redirect_at (text_body r1) = None"
  then show l: "login net response st =
        (Halt (SystemExit 1),
         console_error (sent (post_request u (form_data (parser st) magic)) st)
           ''Invalid username/password combination. Exiting'')"
    by (simp add: login_no_redirect)
  assume "verbose (parser st)"
  then show "trace (snd (login net response st)) =
      trace st @ [Sent (post_request u (form_data (parser st) magic)),
                  Logged ERROR ''Invalid username/password combination. Exiting'']"
    by (simp add: l console_error_def)
next
  fix st0 st'
  assume "calls_login net st0 response st" "login net response st = (Halt (SystemExit 1), st')"
  then have "run slp net st0 = Some (SystemExit 1, st')" by (rule run_login_halts)
  then show "run slp net st0 = Some (SystemExit 1, st')" "exit_status (fst (the (run slp net st0))) = 1"
    by simp_all
qed

text \<open>What the patterns find in the pages of the failing gateways.\<close>

lemma base_url_portal_plain: "re_search base_url_at (url portal_plain) = None"
  by (simp add: portal_plain_def regex_defs)

lemma base_url_portal_dashed: "re_search base_url_at (url portal_dashed) = Some ''https://gw:1003/''"
  by (simp add: portal_dashed_def regex_defs)

lemma magic_portal_dashed: "re_search magic_at (text_body portal_dashed) = None"
  by (simp add: portal_dashed_def regex_defs)

lemma redirect_login_rejected: "re_search redirect_at (text_body login_rejected) = None"
  by (simp add: login_rejected_def regex_defs)

text \<open>
  Witness for C8: the runs against \<open>gw_plain\<close>, \<open>gw_dashed\<close> and \<open>gw_rejected\<close> end with
  status 1, in the state the failing login left.
\<close>

theorem fatal_scrape_exits_witness:
  "run sleep0 gw_plain (init p0) =
     Some (SystemExit 1,
           console_error st_portal ''Cound not find base URL via regex match. Exiting'') \<and>
   run sleep0 gw_dashed (init p0) =
     Some (SystemExit 1,
           console_error st_portal ''Could not find magic value via regex match. Exiting'') \<and>
   run sleep0 gw_rejected (init p0) =
     Some (SystemExit 1,
           console_error
             (sent (post_request ''https://gw:1003/'' (form_data p0 ''abc123'')) st_portal)
             ''Invalid username/password combination. Exiting'') \<and>
   exit_status (fst (the (run sleep0 gw_plain (init p0)))) = 1 \<and>
   exit_status (fst (the (run sleep0 gw_dashed (init p0)))) = 1 \<and>
   exit_status (fst (the (run sleep0 gw_rejected (init p0)))) = 1"
proof -
  have c1: "calls_login gw_plain (init p0) portal_plain st_portal"
    unfolding gw_plain_def by (rule calls_login_script) (simp add: response_fields)
  have c2: "calls_login gw_dashed (init p0) portal_dashed st_portal"
    unfolding gw_dashed_def by (rule calls_login_script) (simp add: response_fields)
  have c3: "calls_login gw_rejected (init p0) portal_page st_portal"
    unfolding gw_rejected_def by (rule calls_login_script) (simp add: response_fields)
  have l1: "login gw_plain portal_plain st_portal =
      (Halt (SystemExit 1),
       console_error st_portal ''Cound not find base URL via regex match. Exiting'')"
    using base_url_portal_plain by (rule login_no_base_url)
  have l2: "login gw_dashed portal_dashed st_portal =
      (Halt (SystemExit 1),
       console_error st_portal ''Could not find magic value via regex match. Exiting'')"
    using base_url_portal_dashed magic_portal_dashed by (rule login_no_magic)
  have post: "gw_rejected (clock st_portal)
      (post_request ''https://gw:1003/'' (form_data (parser st_portal) ''abc123'')) =
      Response login_rejected"
    by (simp add: st_portal_fields gw_post_answers)
  from fatal_scrape_exits [of portal_page gw_rejected st_portal sleep0] base_url_portal_page
    magic_portal_page post redirect_login_rejected
  have l3: "login gw_rejected portal_page st_portal =
      (Halt (SystemExit 1),
       console_error
         (sent (post_request ''https://gw:1003/'' (form_data p0 ''abc123'')) st_portal)
         ''Invalid username/password combination. Exiting'')"
    by (simp add: response_fields st_portal_fields)
  from fatal_scrape_exits [of portal_plain gw_plain st_portal sleep0] c1 l1
  have 1: "run sleep0 gw_plain (init p0) =
     Some (SystemExit 1,
           console_error st_portal ''Cound not find base URL via regex match. Exiting'')"
    "exit_status (fst (the (run sleep0 gw_plain (init p0)))) = 1" by blast+
  from fatal_scrape_exits [of portal_dashed gw_dashed st_portal sleep0] c2 l2
  have 2: "run sleep0 gw_dashed (init p0) =
     Some (SystemExit 1,
           console_error st_portal ''Could not find magic value via regex match. Exiting'')"
    "exit_status (fst (the (run sleep0 gw_dashed (init p0)))) = 1" by blast+
  from fatal_scrape_exits [of portal_page gw_rejected st_portal sleep0] c3 l3
  have 3: "run sleep0 gw_rejected (init p0) =
     Some (SystemExit 1,
           console_error
             (sent (post_request ''https://gw:1003/'' (form_data p0 ''abc123'')) st_portal)
             ''Invalid username/password combination. Exiting'')"
    "exit_status (fst (the (run sleep0 gw_rejected (init p0)))) = 1" by blast+
  from 1 2 3 show ?thesis by simp
qed


text \<open>
  C4, as amended. Claim: a page without a field named magic makes the extraction fail
  and the process end; a page containing \<^verbatim>\<open>name="magic" value="X"\<close> gives the
  token \<open>X\<close>. The first part holds. The second holds when \<open>X\<close> is a non-empty string of
  ASCII letters and digits and the pattern has no match before this occurrence: then
  \<open>X\<close> is the token, and it is the magic field of the form the login posts.
\<close>

theorem magic_extraction:
  \<open>(\<not> sublist ''name="magic"'' (text_body response) \<longrightarrow>
      fst (login net response st) = Halt (SystemExit 1) \<and>
      clock (snd (login net response st)) = clock st) \<and>
   (\<forall>pre X post.
      text_body response = pre @ ''name="magic" value="'' @ X @ ''"'' @ post \<longrightarrow>
      X \<noteq> [] \<longrightarrow> (\<forall>c\<in>set X. magic_class c) \<longrightarrow> re_search magic_at pre = None \<longrightarrow>
      re_search magic_at (text_body response) = Some X \<and>
      (\<forall>u. re_search base_url_at (url response) = Some u \<longrightarrow>
         (\<exists>evs. trace (snd (login net response st)) =
            trace st @ Sent (post_request u (form_data (parser st) X)) # evs)))\<close>
proof (intro conjI allI impI)
  assume \<open>\<not> sublist ''name="magic"'' (text_body response)\<close>
  then have none: "re_search magic_at (text_body response) = None"
    by (rule no_magic_field)
  show "fst (login net response st) = Halt (SystemExit 1)"
    using none by (cases "re_search base_url_at (url response)")
      (simp_all add: login_no_base_url login_no_magic)
  show "clock (snd (login net response st)) = clock st"
    using none by (cases "re_search base_url_at (url response)")
      (simp_all add: login_no_base_url login_no_magic)
next
  fix pre X post
  assume \<open>text_body response = pre @ ''name="magic" value="'' @ X @ ''"'' @ post\<close>
  then have html: "text_body response = pre @ magic_prefix @ X @ dquote # post"
    by (simp add: magic_prefix_def dquote_def)
  assume X: "X \<noteq> []" "\<forall>c\<in>set X. magic_class c" and pre: "re_search magic_at pre = None"
  from magic_search_first [OF X pre] html
  show found: "re_search magic_at (text_body response) = Some X" by simp
  fix u assume "re_search base_url_at (url response) = Some u"
  from login_trace_post [OF this found]
  show "\<exists>evs. trace (snd (login net response st)) =
      trace st @ Sent (post_request u (form_data (parser st) X)) # evs" .
qed

text \<open>Witness for C4: a portal page without the field, and the page of \<open>gw_session\<close>.\<close>

theorem magic_extraction_witness:
  \<open>\<not> sublist ''name="magic"'' (text_body portal_bare) \<and>
   fst (login gw_session portal_bare st_portal) = Halt (SystemExit 1) \<and>
   text_body portal_page = ''<input '' @ ''name="magic" value="'' @ ''abc123'' @ ''"'' @ ''>'' \<and>
   re_search magic_at (text_body portal_page) = Some ''abc123'' \<and>
   (\<exists>evs. trace st_session =
      trace st_portal @
      Sent (post_request ''https://gw:1003/'' (form_data p0 ''abc123'')) # evs)\<close>
proof -
  have a: \<open>\<not> sublist ''name="magic"'' (text_body portal_bare)\<close>
    by (simp add: portal_bare_def sublist_Cons_right)
  have b: \<open>text_body portal_page =
      ''<input '' @ ''name="magic" value="'' @ ''abc123'' @ ''"'' @ ''>''\<close>
    by (simp add: portal_page_def)
  have c: "''abc123'' \<noteq> []" "\<forall>c\<in>set ''abc123''. magic_class c"
    "re_search magic_at ''<input '' = None"
    by (simp_all add: regex_defs)
  from magic_extraction [of portal_bare gw_session st_portal] a
  have 1: "fst (login gw_session portal_bare st_portal) = Halt (SystemExit 1)" by blast
  from magic_extraction [of portal_page gw_session st_portal] b c base_url_portal_page
  have 2: "re_search magic_at (text_body portal_page) = Some ''abc123'' \<and>
    (\<exists>evs. trace (snd (login gw_session portal_page st_portal)) =
      trace st_portal @
      Sent (post_request ''https://gw:1003/'' (form_data (parser st_portal) ''abc123'')) # evs)"
    by blast
  then have 3: "\<exists>evs. trace st_session =
      trace st_portal @
      Sent (post_request ''https://gw:1003/'' (form_data p0 ''abc123'')) # evs"
    by (simp add: st_session_def st_portal_fields)
  from a 1 b 2 3 show ?thesis by (intro conjI) blast+
qed

text \<open>
  Counterexample to C4 as stated: the page contains \<^verbatim>\<open>name="magic" value="a-b"\<close>,
  the token is not \<^verbatim>\<open>a-b\<close>; the pattern does not match and the process ends.
\<close>

theorem magic_value_with_dash:
  \<open>text_body portal_dashed = ''<input '' @ ''name="magic" value="'' @ ''a-b'' @ ''"'' @ ''>'' \<and>
   re_search magic_at (text_body portal_dashed) \<noteq> Some ''a-b'' \<and>
   login gw_dashed portal_dashed st_portal =
     (Halt (SystemExit 1),
      console_error st_portal ''Could not find magic value via regex match. Exiting'')\<close>
proof -
  have \<open>text_body portal_dashed =
      ''<input '' @ ''name="magic" value="'' @ ''a-b'' @ ''"'' @ ''>''\<close>
    by (simp add: portal_dashed_def)
  moreover have "re_search magic_at (text_body portal_dashed) \<noteq> Some ''a-b''"
    by (simp add: magic_portal_dashed)
  moreover have "login gw_dashed portal_dashed st_portal =
     (Halt (SystemExit 1),
      console_error st_portal ''Could not find magic value via regex match. Exiting'')"
    using base_url_portal_dashed magic_portal_dashed by (rule login_no_magic)
  ultimately show ?thesis by (intro conjI)
qed

end
